theory Spec2Isabelle
  imports Main "HOL-Library.Sublist"
begin

section \<open>Python values used by shopifyreview.py\<close>

text \<open>
  Exceptions are values. Only instances of \<^verbatim>\<open>Exception\<close> are modelled (the class that
  every \<^verbatim>\<open>except Exception\<close> of the source catches); each carries the text that
  \<^verbatim>\<open>str(e)\<close> gives. A computation that may raise has the type \<open>py_exn + 'a\<close>,
  with \<open>Inl\<close> for the raised exception.
\<close>

datatype py_exn = Exception string | TypeError string | IndexError string

fun str_exn :: "py_exn \<Rightarrow> string" where
  "str_exn (Exception m) = m"
| "str_exn (TypeError m) = m"
| "str_exn (IndexError m) = m"

definition bind_exn :: "py_exn + 'a \<Rightarrow> ('a \<Rightarrow> py_exn + 'b) \<Rightarrow> py_exn + 'b" where
  "bind_exn m f = (case m of Inl e \<Rightarrow> Inl e | Inr x \<Rightarrow> f x)"

text \<open>A list comprehension or a \<^verbatim>\<open>for\<close> loop whose body may raise: the first exception
  ends it.\<close>

fun mapM_exn :: "('a \<Rightarrow> py_exn + 'b) \<Rightarrow> 'a list \<Rightarrow> py_exn + 'b list" where
  "mapM_exn f [] = Inr []"
| "mapM_exn f (x # xs) =
     bind_exn (f x) (\<lambda>y. bind_exn (mapM_exn f xs) (\<lambda>ys. Inr (y # ys)))"

text \<open>
  Modelled from the spec: \<^verbatim>\<open>base.log_config.logger\<close> is not among the source files. The
  spec's logging collaborator accepts levelled messages (info, warning, error), returns
  nothing and has no effect on control flow; a call appends one entry to the log.
\<close>

datatype log_entry = Info string | Warning string | Error string

subsection \<open>Strings\<close>

text \<open>
  Strings are lists of \<open>char\<close>. \<^verbatim>\<open>str.strip()\<close> removes the white space of Python at
  both ends; within the 8-bit range these are the code points 9 to 13, 28 to 32, 133
  and 160.
\<close>

definition is_space :: "char \<Rightarrow> bool" where
  "is_space c = (of_char c \<in> {9, 10, 11, 12, 13, 28, 29, 30, 31, 32, 133, 160 :: nat})"

definition strip :: "string \<Rightarrow> string" where
  "strip s = rev (dropWhile is_space (rev (dropWhile is_space s)))"

text \<open>\<^verbatim>\<open>re.search(r'\d+', s)\<close>: the leftmost match, as long as it can be; \<open>None\<close> when
  there is no digit. The value is what \<^verbatim>\<open>match.group()\<close> returns.\<close>

definition is_digit :: "char \<Rightarrow> bool" where
  "is_digit c = (c \<in> set ''0123456789'')"

fun re_search_digits :: "string \<Rightarrow> string option" where
  "re_search_digits [] = None"
| "re_search_digits (c # cs) =
     (if is_digit c then Some (takeWhile is_digit (c # cs)) else re_search_digits cs)"

text \<open>
  \<^verbatim>\<open>s.split(sep)\<close>: \<open>find_sep\<close> looks for the leftmost occurrence of \<open>sep\<close> and
  returns what is before and after it. Every separator of the source is a non-empty
  literal (Python raises ValueError on an empty one, which no call of the source can
  reach).
\<close>

fun find_sep :: "string \<Rightarrow> string \<Rightarrow> (string \<times> string) option" where
  "find_sep sep [] = (if sep = [] then Some ([], []) else None)"
| "find_sep sep (c # cs) =
     (if take (length sep) (c # cs) = sep then Some ([], drop (length sep) (c # cs))
      else (case find_sep sep cs of
              None \<Rightarrow> None
            | Some (a, b) \<Rightarrow> Some (c # a, b)))"

function py_split :: "string \<Rightarrow> string \<Rightarrow> string list" where
  "py_split sep s =
     (if sep = [] then [s]
      else (case find_sep sep s of
              None \<Rightarrow> [s]
            | Some (a, b) \<Rightarrow> a # py_split sep b))"
  by pat_completeness auto
termination
proof (relation "measure (\<lambda>(sep, s). length s)")
  show "wf (measure (\<lambda>(sep, s). length s))" by simp
next
  fix sep s :: string and x2 :: "string \<times> string" and a b :: string
  assume ne: "sep \<noteq> []" and f: "find_sep sep s = Some x2" and x: "(a, b) = x2"
  have len: "find_sep sep t = Some (u, v) \<Longrightarrow> length u + length sep + length v = length t"
    for t u v
  proof (induction t arbitrary: u v)
    case Nil
    then show ?case by (simp split: if_splits)
  next
    case (Cons c cs)
    show ?case
    proof (cases "take (length sep) (c # cs) = sep")
      case True
      then have "length (take (length sep) (c # cs)) = length sep"
        by simp
      then have "length sep \<le> length (c # cs)"
        by (simp del: take_Suc_Cons)
      with True Cons.prems show ?thesis by auto
    next
      case False
      with Cons.prems obtain u' where g: "find_sep sep cs = Some (u', v)" and u: "u = c # u'"
        by (auto split: option.splits)
      from Cons.IH [OF g] u show ?thesis by simp
    qed
  qed
  from f x have "find_sep sep s = Some (a, b)" by simp
  from len [OF this] ne have "length b < length s"
    by (cases sep) auto
  then show "((sep, b), (sep, s)) \<in> measure (\<lambda>(sep, s). length s)" by simp
qed

declare py_split.simps [simp del]

text \<open>\<^verbatim>\<open>sep.join(xs)\<close>.\<close>

fun join :: "string \<Rightarrow> string list \<Rightarrow> string" where
  "join sep [] = []"
| "join sep [x] = x"
| "join sep (x # y # ys) = x @ sep @ join sep (y # ys)"

text \<open>\<^verbatim>\<open>word.capitalize()\<close> on ASCII: the first character in upper case, the others in
  lower case; characters that are not ASCII letters stay as they are.\<close>

definition upper_char :: "char \<Rightarrow> char" where
  "upper_char c =
     (case map_of (zip ''abcdefghijklmnopqrstuvwxyz'' ''ABCDEFGHIJKLMNOPQRSTUVWXYZ'') c of
        Some u \<Rightarrow> u | None \<Rightarrow> c)"

definition lower_char :: "char \<Rightarrow> char" where
  "lower_char c =
     (case map_of (zip ''ABCDEFGHIJKLMNOPQRSTUVWXYZ'' ''abcdefghijklmnopqrstuvwxyz'') c of
        Some l \<Rightarrow> l | None \<Rightarrow> c)"

fun capitalize :: "string \<Rightarrow> string" where
  "capitalize [] = []"
| "capitalize (c # cs) = upper_char c # map lower_char cs"

text \<open>\<^verbatim>\<open>str(n)\<close> for the page counter and for \<^verbatim>\<open>len(combined_data)\<close>.\<close>

definition digit_char :: "nat \<Rightarrow> char" where
  "digit_char d = ''0123456789'' ! d"

fun str_nat :: "nat \<Rightarrow> string" where
  "str_nat n = (if n < 10 then [digit_char n] else str_nat (n div 10) @ [digit_char (n mod 10)])"

declare str_nat.simps [simp del]

text \<open>
  A Python dict with string keys and values keeps the order in which its keys were
  inserted: an association list. \<open>py_get d k dflt\<close> is \<^verbatim>\<open>d.get(k, dflt)\<close>.
\<close>

type_synonym py_dict = "(string \<times> string) list"

definition py_get :: "py_dict \<Rightarrow> string \<Rightarrow> string \<Rightarrow> string" where
  "py_get d k dflt = (case map_of d k of Some v \<Rightarrow> v | None \<Rightarrow> dflt)"

section \<open>The collaborators: HTTP fetch and markup parser\<close>

text \<open>
  \<^verbatim>\<open>requests\<close> and \<^verbatim>\<open>bs4\<close> are libraries, so the functions of the source are modelled
  over the operations they call, and each operation may raise. \<open>'r\<close> is the type of
  responses and \<open>'n\<close> the type of nodes of a parsed page (the soup itself is a node).
  \<^item> \<open>requests_get url\<close>: \<^verbatim>\<open>requests.get(url)\<close>;
  \<^item> \<open>BeautifulSoup r\<close>: \<^verbatim>\<open>BeautifulSoup(r.content, 'html.parser')\<close>;
  \<^item> \<open>soup_find n tag cls\<close>: \<^verbatim>\<open>n.find(tag, class_=cls)\<close>, \<open>None\<close> when nothing matches;
  \<^item> \<open>find_all n tag cls\<close>: \<^verbatim>\<open>n.find_all(tag, class_=cls)\<close>, in document order;
  \<^item> \<open>find_next_sibling n\<close>: \<^verbatim>\<open>n.find_next_sibling()\<close>, the next sibling that is a tag;
  \<^item> \<open>text_of n\<close>: \<^verbatim>\<open>n.text\<close>;
  \<^item> \<open>get_attr n k\<close>: the attribute \<open>k\<close> of \<open>n\<close>, \<open>None\<close> when \<open>n\<close> has none
    (\<^verbatim>\<open>n.get(k, dflt)\<close> is then \<open>dflt\<close>).
  A tag is true in a Python condition whatever it contains, so \<^verbatim>\<open>if main_container\<close>
  and \<^verbatim>\<open>if location_element\<close> only test for \<open>None\<close>.
\<close>

record ('r, 'n) web =
  requests_get :: "string \<Rightarrow> py_exn + 'r"
  BeautifulSoup :: "'r \<Rightarrow> py_exn + 'n"
  soup_find :: "'n \<Rightarrow> string \<Rightarrow> string \<Rightarrow> py_exn + 'n option"
  find_all :: "'n \<Rightarrow> string \<Rightarrow> string \<Rightarrow> py_exn + 'n list"
  find_next_sibling :: "'n \<Rightarrow> py_exn + 'n option"
  text_of :: "'n \<Rightarrow> py_exn + string"
  get_attr :: "'n \<Rightarrow> string \<Rightarrow> py_exn + string option"

section \<open>The field extractors\<close>

subsection \<open>extract_reviews\<close>

abbreviation main_container_class :: string where
  "main_container_class \<equiv>
     ''tw-col-span-full md:tw-col-span-9 lg:tw-col-span-8 lg:tw-pl-gutter--desktop''"

abbreviation review_element_class :: string where
  "review_element_class \<equiv>
     ''tw-text-heading-xs tw-text-fg-primary tw-overflow-hidden tw-text-ellipsis tw-whitespace-nowrap''"

text \<open>The body of the loop over \<^verbatim>\<open>review_elements\<close> (lines 26 to 36): the dict it appends.\<close>

definition review_of :: "('r, 'n) web \<Rightarrow> 'n \<Rightarrow> py_exn + py_dict" where
  "review_of W review_element =
     bind_exn (text_of W review_element) (\<lambda>t.
     let title = strip t in
     bind_exn (find_next_sibling W review_element) (\<lambda>location_element.
     bind_exn (case location_element of
                 Some l \<Rightarrow> bind_exn (text_of W l) (\<lambda>lt. Inr (strip lt))
               | None \<Rightarrow> Inr ''Unknown'') (\<lambda>location.
     bind_exn (case location_element of
                 Some l \<Rightarrow> find_next_sibling W l
               | None \<Rightarrow> Inr None) (\<lambda>span_element.
     bind_exn (case span_element of
                 Some sp \<Rightarrow> bind_exn (text_of W sp) (\<lambda>st. Inr (strip st))
               | None \<Rightarrow> Inr ''Unknown'') (\<lambda>span.
     Inr [(''Store'', title), (''Location'', location), (''Span'', span)])))))"

text \<open>
  The body of the \<^verbatim>\<open>try\<close> of \<open>extract_reviews\<close>: the value returned and what was logged
  before returning. The value is \<open>None\<close> for Python's \<^verbatim>\<open>None\<close> and \<open>Some rs\<close> for the
  list \<open>rs\<close>.
\<close>

definition extract_reviews_body ::
  "('r, 'n) web \<Rightarrow> 'n \<Rightarrow> py_exn + (py_dict list option \<times> log_entry list)" where
  "extract_reviews_body W soup =
     bind_exn (soup_find W soup ''div'' main_container_class) (\<lambda>main_container.
     case main_container of
       Some mc \<Rightarrow>
         bind_exn (find_all W mc ''div'' review_element_class) (\<lambda>review_elements.
         bind_exn (mapM_exn (review_of W) review_elements) (\<lambda>reviews.
         Inr (Some reviews, [])))
     | None \<Rightarrow> Inr (None, [Warning ''Main container not found on this page'']))"

definition extract_reviews :: "('r, 'n) web \<Rightarrow> 'n \<Rightarrow> py_dict list option \<times> log_entry list" where
  "extract_reviews W soup =
     (case extract_reviews_body W soup of
        Inr r \<Rightarrow> r
      | Inl e \<Rightarrow> (None, [Error (''Error extracting reviews: '' @ str_exn e)]))"

subsection \<open>extract_content\<close>

abbreviation content_element_class :: string where
  "content_element_class \<equiv> ''tw-mb-xs md:tw-mb-sm''"

definition extract_content_body :: "('r, 'n) web \<Rightarrow> 'n \<Rightarrow> py_exn + string list" where
  "extract_content_body W soup =
     bind_exn (find_all W soup ''div'' content_element_class) (\<lambda>content_elements.
     mapM_exn (\<lambda>content_element.
       bind_exn (text_of W content_element) (\<lambda>t. Inr (strip t))) content_elements)"

definition extract_content :: "('r, 'n) web \<Rightarrow> 'n \<Rightarrow> string list \<times> log_entry list" where
  "extract_content W soup =
     (case extract_content_body W soup of
        Inr content \<Rightarrow> (content, [])
      | Inl e \<Rightarrow> ([], [Error (''Error extracting content: '' @ str_exn e)]))"

subsection \<open>time_rate_scrap\<close>

abbreviation rate_container_class :: string where
  "rate_container_class \<equiv> ''tw-order-1 lg:tw-order-2 lg:tw-col-span-3 tw-overflow-x-auto''"

abbreviation rate_element_class :: string where
  "rate_element_class \<equiv> ''tw-flex tw-relative tw-space-x-0.5 tw-w-[88px] tw-h-md''"

abbreviation date_element_class :: string where
  "date_element_class \<equiv> ''tw-text-body-xs tw-text-fg-tertiary''"

text \<open>Lines 70 to 73: the rate of one container.\<close>

definition rate_of :: "('r, 'n) web \<Rightarrow> 'n \<Rightarrow> py_exn + string" where
  "rate_of W container =
     bind_exn (soup_find W container ''div'' rate_element_class) (\<lambda>rate_element.
     bind_exn (case rate_element of
                 Some re \<Rightarrow>
                   bind_exn (get_attr W re ''aria-label'') (\<lambda>v.
                   Inr (case v of Some a \<Rightarrow> a | None \<Rightarrow> ''Unknown''))
               | None \<Rightarrow> Inr ''Unknown'') (\<lambda>rate_text.
     Inr (case re_search_digits rate_text of Some m \<Rightarrow> m | None \<Rightarrow> ''Unknown'')))"

text \<open>Lines 75 and 76: the date of one container.\<close>

definition date_of :: "('r, 'n) web \<Rightarrow> 'n \<Rightarrow> py_exn + string" where
  "date_of W container =
     bind_exn (soup_find W container ''div'' date_element_class) (\<lambda>date_element.
     case date_element of
       Some de \<Rightarrow> bind_exn (text_of W de) (\<lambda>t. Inr (strip t))
     | None \<Rightarrow> Inr ''Unknown'')"

text \<open>The body of the loop over \<^verbatim>\<open>rate_containers\<close> (lines 70 to 81).\<close>

definition rate_time_of :: "('r, 'n) web \<Rightarrow> 'n \<Rightarrow> py_exn + py_dict" where
  "rate_time_of W container =
     bind_exn (rate_of W container) (\<lambda>rate.
     bind_exn (date_of W container) (\<lambda>date.
     Inr [(''Rate'', rate), (''Time'', date)]))"

definition time_rate_scrap_body :: "('r, 'n) web \<Rightarrow> 'n \<Rightarrow> py_exn + py_dict list" where
  "time_rate_scrap_body W soup =
     bind_exn (find_all W soup ''div'' rate_container_class) (\<lambda>rate_containers.
     mapM_exn (rate_time_of W) rate_containers)"

definition time_rate_scrap :: "('r, 'n) web \<Rightarrow> 'n \<Rightarrow> py_dict list \<times> log_entry list" where
  "time_rate_scrap W soup =
     (case time_rate_scrap_body W soup of
        Inr extracted_data \<Rightarrow> (extracted_data, [])
      | Inl e \<Rightarrow> ([[(''Rate'', ''Unknown''), (''Time'', ''Unknown'')]],
                  [Error (''Error extracting rate/time: '' @ str_exn e)]))"

section \<open>detail_scrap\<close>

text \<open>
  The dict returned by \<open>detail_scrap\<close> is either empty (\<open>None\<close> here) or has the three
  keys \<^verbatim>\<open>reviews\<close>, \<^verbatim>\<open>content\<close> and \<^verbatim>\<open>time_rate\<close>. The three extractors catch every
  exception of their own, so only the fetch and the parse can reach the handler
  of \<open>detail_scrap\<close>.
\<close>

record scraped =
  reviews :: "py_dict list option"
  content :: "string list"
  time_rate :: "py_dict list"

definition detail_scrap :: "('r, 'n) web \<Rightarrow> string \<Rightarrow> scraped option \<times> log_entry list" where
  "detail_scrap W url =
     (case bind_exn (requests_get W url) (BeautifulSoup W) of
        Inl e \<Rightarrow> (None, [Error (''Error scraping page '' @ url @ '': '' @ str_exn e)])
      | Inr soup \<Rightarrow>
          (let (extracted_reviews, l1) = extract_reviews W soup;
               (extracted_content, l2) = extract_content W soup;
               (extracted_time_rate, l3) = time_rate_scrap W soup
           in (Some \<lparr>reviews = extracted_reviews, content = extracted_content,
                      time_rate = extracted_time_rate\<rparr>,
               Info (''Successfully fetched page: '' @ url) # l1 @ l2 @ l3)))"

section \<open>main\<close>

text \<open>
  \<open>combined_data\<close> is the accumulator of \<open>main\<close>, \<open>log\<close> what the logger has
  received, and \<open>written\<close> the files written by \<^verbatim>\<open>to_csv\<close> (name and table).
  \<^verbatim>\<open>time.sleep(5)\<close> changes no value and is left out.
\<close>

record table =
  columns :: "string list"
  rows :: "string option list list"

record run_state =
  combined_data :: "py_dict list"
  log :: "log_entry list"
  written :: "(string \<times> table) list"

abbreviation base_url :: "string list" where
  "base_url \<equiv>
    [''https://apps.shopify.com/google-customer-reviews-1/reviews?search_id=2e1fc3d9-d3c5-4254-acaf-bacae870ded4&page='',
     ''https://apps.shopify.com/social-testimonial-slider/reviews?search_id=737d0deb-1c58-4a2f-bedf-b8e2e9edfd69&page='',
     ''https://apps.shopify.com/reputon-testimonials/reviews?search_id=86905e06-08cb-4532-ab20-492267a980de&page='',
     ''https://apps.shopify.com/product-reviews-by-appio/reviews?search_id=24b42449-d36f-4727-8365-7925219c6797&page='',
     ''https://apps.shopify.com/revie/reviews?search_id=31a66c11-4f15-441f-b79d-1a9933b64247&page='']"

text \<open>
  Lines 127 and 128. The index \<^verbatim>\<open>[1]\<close> raises IndexError when the URL does not contain
  \<^verbatim>\<open>apps.shopify.com/\<close>; nothing in \<open>main\<close> catches it.
\<close>

definition app_name_of :: "string \<Rightarrow> py_exn + string" where
  "app_name_of app_url =
     (case py_split ''apps.shopify.com/'' app_url of
        _ # after_host # _ \<Rightarrow>
          (case py_split ''/reviews'' after_host of
             parts # _ \<Rightarrow> Inr (join '' '' (map capitalize (py_split ''-'' parts)))
           | [] \<Rightarrow> Inl (IndexError ''list index out of range''))
      | _ \<Rightarrow> Inl (IndexError ''list index out of range''))"

text \<open>
  Lines 139 to 148: the loop over \<^verbatim>\<open>zip(reviews, content, time_rate_data)\<close>, which ends
  as soon as one of the three lists is exhausted, appending to \<open>combined_data\<close>.
\<close>

fun merge_loop ::
  "string \<Rightarrow> py_dict list \<Rightarrow> string list \<Rightarrow> py_dict list \<Rightarrow> py_dict list \<Rightarrow> py_dict list" where
  "merge_loop app_name (review # rs) (cont # cs) (tr # ts) acc =
     merge_loop app_name rs cs ts
       (acc @
        [[(''Store'', py_get review ''Store'' []),
          (''Location'', py_get review ''Location'' []),
          (''Span'', py_get review ''Span'' []),
          (''Rate'', py_get tr ''Rate'' ''Unknown''),
          (''Time'', py_get tr ''Time'' ''Unknown''),
          (''Review'', cont),
          (''Application Name'', app_name)]])"
| "merge_loop app_name rs cs ts acc = acc"

text \<open>
  One iteration of \<^verbatim>\<open>while True\<close> (lines 127 to 156): the next state and whether the
  loop goes on (\<open>Next\<close>), ends by \<^verbatim>\<open>break\<close> (\<open>Stop\<close>), or an exception leaves \<open>main\<close>
  (\<open>Raise\<close>). \<^verbatim>\<open>data.get("reviews")\<close> is false in the condition for \<^verbatim>\<open>None\<close> and for
  the empty list; \<^verbatim>\<open>data.get("reviews", [])\<close> is \<^verbatim>\<open>None\<close> when the key holds \<^verbatim>\<open>None\<close>,
  and \<^verbatim>\<open>zip\<close> raises TypeError on it (the wording of its message depends on the
  Python version; only its class matters here). The lists of content and ratings are
  never \<^verbatim>\<open>None\<close>: their extractors return a list on every path.
\<close>

datatype step = Next run_state | Stop run_state | Raise py_exn

definition page_step :: "('r, 'n) web \<Rightarrow> string \<Rightarrow> nat \<Rightarrow> run_state \<Rightarrow> step" where
  "page_step W app_url page_num st =
     (case app_name_of app_url of
        Inl e \<Rightarrow> Raise e
      | Inr app_name \<Rightarrow>
          (let url = app_url @ str_nat page_num;
               (data, lg) = detail_scrap W url;
               st1 = st\<lparr>log := log st @ lg\<rparr>;
               no_more = Stop (st1\<lparr>log := log st1 @
                 [Info (''No more data found at page '' @ str_nat page_num @
                        ''. Ending scraping for '' @ app_name @ ''.'')]\<rparr>)
           in case data of
                None \<Rightarrow> no_more
              | Some d \<Rightarrow>
                  if (reviews d \<noteq> None \<and> reviews d \<noteq> Some []) \<or> content d \<noteq> [] \<or> time_rate d \<noteq> []
                  then (case reviews d of
                          None \<Rightarrow> Raise (TypeError ''zip argument #1 must support iteration'')
                        | Some rs \<Rightarrow>
                            Next (st1\<lparr>combined_data :=
                                         merge_loop app_name rs (content d) (time_rate d) (combined_data st1),
                                       log := log st1 @
                                         [Info (''Extracted reviews and content from page '' @
                                                str_nat page_num)]\<rparr>))
                  else no_more))"

text \<open>
  The loop \<^verbatim>\<open>while True\<close> may run for ever, so it is given fuel: the number of pages it
  may fetch. \<open>None\<close> means that the fuel ran out before the loop ended.
\<close>

fun scrape_pages ::
  "nat \<Rightarrow> ('r, 'n) web \<Rightarrow> string \<Rightarrow> nat \<Rightarrow> run_state \<Rightarrow> (py_exn + run_state) option" where
  "scrape_pages 0 W app_url page_num st = None"
| "scrape_pages (Suc fuel) W app_url page_num st =
     (case page_step W app_url page_num st of
        Raise e \<Rightarrow> Some (Inl e)
      | Stop st' \<Rightarrow> Some (Inr st')
      | Next st' \<Rightarrow> scrape_pages fuel W app_url (page_num + 1) st')"

text \<open>The loop over \<^verbatim>\<open>base_url\<close>; every source starts at page 1 with the same fuel.\<close>

fun scrape_all ::
  "nat \<Rightarrow> ('r, 'n) web \<Rightarrow> string list \<Rightarrow> run_state \<Rightarrow> (py_exn + run_state) option" where
  "scrape_all fuel W [] st = Some (Inr st)"
| "scrape_all fuel W (app_url # urls) st =
     (case scrape_pages fuel W app_url 1 st of
        None \<Rightarrow> None
      | Some (Inl e) \<Rightarrow> Some (Inl e)
      | Some (Inr st') \<Rightarrow> scrape_all fuel W urls st')"

text \<open>
  \<^verbatim>\<open>pd.DataFrame(combined_data)\<close> for a list of dicts: the columns are the keys in the
  order in which they are first seen, a row holds for each column the value of its
  dict (\<open>None\<close> for a missing key). \<^verbatim>\<open>to_csv(name, index=False)\<close> writes the header
  and the rows, without an index column.
\<close>

fun first_seen :: "string list \<Rightarrow> string list \<Rightarrow> string list" where
  "first_seen seen [] = seen"
| "first_seen seen (k # ks) = first_seen (if k \<in> set seen then seen else seen @ [k]) ks"

definition DataFrame :: "py_dict list \<Rightarrow> table" where
  "DataFrame ds =
     (let cols = first_seen [] (concat (map (map fst) ds))
      in \<lparr>columns = cols, rows = map (\<lambda>d. map (map_of d) cols) ds\<rparr>)"

text \<open>Lines 159 to 164.\<close>

definition save :: "run_state \<Rightarrow> run_state" where
  "save st =
     (if combined_data st \<noteq> []
      then st\<lparr>written := written st @ [(''shopify__reviews.csv'', DataFrame (combined_data st))],
               log := log st @
                 [Info (''Saved '' @ str_nat (length (combined_data st)) @
                        '' combined records to '' @ [CHR 0x27] @ ''reviews.csv'' @ [CHR 0x27])]\<rparr>
      else st\<lparr>log := log st @ [Info ''No reviews or content were extracted.'']\<rparr>)"

definition main :: "nat \<Rightarrow> ('r, 'n) web \<Rightarrow> (py_exn + run_state) option" where
  "main fuel W =
     (case scrape_all fuel W base_url \<lparr>combined_data = [], log = [], written = []\<rparr> of
        None \<Rightarrow> None
      | Some (Inl e) \<Rightarrow> Some (Inl e)
      | Some (Inr st) \<Rightarrow> Some (Inr (save st)))"

section \<open>A document model for the collaborators\<close>

text \<open>
  A parsed page as a tree of tags and strings, with the operations of the markup
  parser on it; it provides the concrete pages on which the functions above are
  evaluated. A node is handled together with the siblings that follow it, which is
  what \<^verbatim>\<open>find_next_sibling\<close> needs. A tag matches a search for \<open>tag\<close> and \<open>cls\<close> when it
  has that name and its class attribute has exactly that value. A response is the
  tree of its page.
\<close>

datatype node = Tag string "(string \<times> string) list" "node list" | NavigableString string

type_synonym element = "node \<times> node list"

fun elements :: "node list \<Rightarrow> element list" where
  "elements [] = []"
| "elements (NavigableString t # ns) = (NavigableString t, ns) # elements ns"
| "elements (Tag nm at ch # ns) = (Tag nm at ch, ns) # elements ch @ elements ns"

fun children :: "node \<Rightarrow> node list" where
  "children (Tag nm at ch) = ch"
| "children (NavigableString t) = []"

fun node_text :: "node \<Rightarrow> string" where
  "node_text (NavigableString t) = t"
| "node_text (Tag nm at ch) = concat (map node_text ch)"

fun matches :: "string \<Rightarrow> string \<Rightarrow> element \<Rightarrow> bool" where
  "matches tag cls (Tag nm at ch, sibs) = (nm = tag \<and> map_of at ''class'' = Some cls)"
| "matches tag cls (NavigableString t, sibs) = False"

fun next_tag :: "node list \<Rightarrow> element option" where
  "next_tag [] = None"
| "next_tag (NavigableString t # ns) = next_tag ns"
| "next_tag (Tag nm at ch # ns) = Some (Tag nm at ch, ns)"

fun node_attr :: "node \<Rightarrow> string \<Rightarrow> py_exn + string option" where
  "node_attr (Tag nm at ch) k = Inr (map_of at k)"
| "node_attr (NavigableString t) k = Inl (Exception ''AttributeError'')"

definition tree_web :: "(string \<Rightarrow> py_exn + node) \<Rightarrow> (node, element) web" where
  "tree_web site =
     \<lparr>requests_get = site,
      BeautifulSoup = (\<lambda>r. Inr (r, [])),
      soup_find = (\<lambda>n tag cls.
        Inr (case filter (matches tag cls) (elements (children (fst n))) of
               [] \<Rightarrow> None | e # es \<Rightarrow> Some e)),
      find_all = (\<lambda>n tag cls. Inr (filter (matches tag cls) (elements (children (fst n))))),
      find_next_sibling = (\<lambda>n. Inr (next_tag (snd n))),
      text_of = (\<lambda>n. Inr (node_text (fst n))),
      get_attr = (\<lambda>n k. node_attr (fst n) k)\<rparr>"

subsection \<open>Pages\<close>

definition div_class :: "string \<Rightarrow> node list \<Rightarrow> node" where
  "div_class cls ch = Tag ''div'' [(''class'', cls)] ch"

text \<open>One review heading: the store name, then as many sibling tags as given.\<close>

definition heading :: "string \<Rightarrow> string list \<Rightarrow> node" where
  "heading store sibs =
     Tag ''div'' []
       (NavigableString [CHR 0x0A] # div_class review_element_class [NavigableString store] #
        concat (map (\<lambda>s. [NavigableString [CHR 0x0A], Tag ''div'' [] [NavigableString s]]) sibs))"

definition stars :: "string \<Rightarrow> node" where
  "stars label = Tag ''div'' [(''class'', rate_element_class), (''aria-label'', label)] []"

definition page_one :: node where
  "page_one =
     Tag ''html'' []
       [div_class main_container_class
          [heading ''  Acme Store '' [''Canada'', ''About 2 years using the app''],
           heading ''Solo Shop'' []],
        div_class content_element_class [NavigableString '' Great app ''],
        div_class content_element_class [NavigableString ''Works''],
        div_class rate_container_class
          [stars ''Rated 4 out of 5 stars'',
           div_class date_element_class [NavigableString '' May 1, 2024 '']],
        div_class rate_container_class []]"

definition page_empty :: node where
  "page_empty = Tag ''html'' [] [div_class main_container_class []]"

definition page_blank :: node where
  "page_blank = Tag ''html'' [] []"

definition page_content_only :: node where
  "page_content_only =
     Tag ''html'' [] [div_class content_element_class [NavigableString ''Nice'']]"

definition page_rating_only :: node where
  "page_rating_only =
     Tag ''html'' [] [div_class rate_container_class [stars ''Rated 5 out of 5 stars'']]"

definition page_rating_no_titles :: node where
  "page_rating_no_titles =
     Tag ''html'' []
       [div_class main_container_class [],
        div_class rate_container_class [stars ''Rated 5 out of 5 stars'']]"

text \<open>Sites: which page each URL returns. \<open>first_url\<close> is the first source of \<open>main\<close>.\<close>

abbreviation first_url :: string where
  "first_url \<equiv>
     ''https://apps.shopify.com/google-customer-reviews-1/reviews?search_id=2e1fc3d9-d3c5-4254-acaf-bacae870ded4&page=''"

definition site_of :: "node list \<Rightarrow> string \<Rightarrow> py_exn + node" where
  "site_of pages url =
     (case find_sep first_url url of
        Some ([], ''1'') \<Rightarrow> (case pages of p # _ \<Rightarrow> Inr p | _ \<Rightarrow> Inr page_blank)
      | Some ([], ''2'') \<Rightarrow> (case pages of _ # p # _ \<Rightarrow> Inr p | _ \<Rightarrow> Inr page_blank)
      | _ \<Rightarrow> Inr page_blank)"

definition site_down :: "string \<Rightarrow> py_exn + node" where
  "site_down url = Inl (Exception ''Connection refused'')"

text \<open>A parser on which the search for the main container raises.\<close>

definition broken_find_web :: "(string \<Rightarrow> py_exn + node) \<Rightarrow> (node, element) web" where
  "broken_find_web site =
     (tree_web site)\<lparr>soup_find := (\<lambda>n tag cls.
        if cls = main_container_class then Inl (Exception ''maximum recursion depth exceeded'')
        else soup_find (tree_web site) n tag cls)\<rparr>"

text \<open>A parser on which the search for the rating containers raises.\<close>

definition broken_find_all_web :: "(string \<Rightarrow> py_exn + node) \<Rightarrow> (node, element) web" where
  "broken_find_all_web site =
     (tree_web site)\<lparr>find_all := (\<lambda>n tag cls.
        if cls = rate_container_class then Inl (Exception ''maximum recursion depth exceeded'')
        else find_all (tree_web site) n tag cls)\<rparr>"

section \<open>The merge step\<close>

lemma merge_loop_zip:
  "merge_loop app_name rs cs ts acc =
     acc @ map (\<lambda>(review, cont, tr).
                  [(''Store'', py_get review ''Store'' []),
                   (''Location'', py_get review ''Location'' []),
                   (''Span'', py_get review ''Span'' []),
                   (''Rate'', py_get tr ''Rate'' ''Unknown''),
                   (''Time'', py_get tr ''Time'' ''Unknown''),
                   (''Review'', cont),
                   (''Application Name'', app_name)]) (zip rs (zip cs ts))"
  by (induction app_name rs cs ts acc rule: merge_loop.induct) simp_all

text \<open>
  Claim C4. The merge of one page pairs the three sequences by position and ends with
  the shortest: it appends exactly min(len(reviews), len(content), len(time_rate))
  records to the accumulator, the i-th of them built from the i-th identity, the i-th
  content block and the i-th rating; for lengths 3, 2 and 4 it appends exactly 2.
\<close>

theorem C4_merge_truncates_to_shortest:
  "length (merge_loop app_name rs cs ts acc) =
     length acc + min (length rs) (min (length cs) (length ts)) \<and>
   take (length acc) (merge_loop app_name rs cs ts acc) = acc \<and>
   (\<forall>i < min (length rs) (min (length cs) (length ts)).
      merge_loop app_name rs cs ts acc ! (length acc + i) =
        [(''Store'', py_get (rs ! i) ''Store'' []),
         (''Location'', py_get (rs ! i) ''Location'' []),
         (''Span'', py_get (rs ! i) ''Span'' []),
         (''Rate'', py_get (ts ! i) ''Rate'' ''Unknown''),
         (''Time'', py_get (ts ! i) ''Time'' ''Unknown''),
         (''Review'', cs ! i),
         (''Application Name'', app_name)]) \<and>
   (length rs = 3 \<and> length cs = 2 \<and> length ts = 4 \<longrightarrow>
      length (merge_loop app_name rs cs ts []) = 2)"
  by (simp add: merge_loop_zip nth_append)

theorem C4_merge_truncates_to_shortest_witness:
  "length (merge_loop ''App''
      [[(''Store'', ''a''), (''Location'', ''x''), (''Span'', ''p'')],
       [(''Store'', ''b''), (''Location'', ''y''), (''Span'', ''q'')],
       [(''Store'', ''c''), (''Location'', ''z''), (''Span'', ''r'')]]
      [''one'', ''two'']
      [[(''Rate'', ''1''), (''Time'', ''t1'')], [(''Rate'', ''2''), (''Time'', ''t2'')],
       [(''Rate'', ''3''), (''Time'', ''t3'')], [(''Rate'', ''4''), (''Time'', ''t4'')]] []) = 2 \<and>
   merge_loop ''App''
      [[(''Store'', ''a''), (''Location'', ''x''), (''Span'', ''p'')],
       [(''Store'', ''b''), (''Location'', ''y''), (''Span'', ''q'')],
       [(''Store'', ''c''), (''Location'', ''z''), (''Span'', ''r'')]]
      [''one'', ''two'']
      [[(''Rate'', ''1''), (''Time'', ''t1'')], [(''Rate'', ''2''), (''Time'', ''t2'')],
       [(''Rate'', ''3''), (''Time'', ''t3'')], [(''Rate'', ''4''), (''Time'', ''t4'')]] [] ! 1 =
     [(''Store'', ''b''), (''Location'', ''y''), (''Span'', ''q''), (''Rate'', ''2''),
      (''Time'', ''t2''), (''Review'', ''two''), (''Application Name'', ''App'')]"
  using C4_merge_truncates_to_shortest [of "''App''"
      "[[(''Store'', ''a''), (''Location'', ''x''), (''Span'', ''p'')],
       [(''Store'', ''b''), (''Location'', ''y''), (''Span'', ''q'')],
       [(''Store'', ''c''), (''Location'', ''z''), (''Span'', ''r'')]]"
      "[''one'', ''two'']"
      "[[(''Rate'', ''1''), (''Time'', ''t1'')], [(''Rate'', ''2''), (''Time'', ''t2'')],
       [(''Rate'', ''3''), (''Time'', ''t3'')], [(''Rate'', ''4''), (''Time'', ''t4'')]]" "[]"]
  by (simp add: py_get_def)

section \<open>Identity records\<close>








section \<open>Rating records\<close>

lemma re_search_digits_no_digit:
  "(\<forall>c\<in>set s. \<not> is_digit c) \<Longrightarrow> re_search_digits s = None"
  by (induction s) auto

lemma takeWhile_run:
  assumes "\<forall>c\<in>set m. P c" and "post = [] \<or> \<not> P (hd post)"
  shows "takeWhile P (m @ post) = m"
proof (cases post)
  case Nil
  with assms show ?thesis by simp
next
  case (Cons x xs)
  with assms show ?thesis by (simp add: takeWhile_append2)
qed

lemma re_search_digits_first_run:
  assumes "\<forall>c\<in>set pre. \<not> is_digit c" and "m \<noteq> []" and "\<forall>c\<in>set m. is_digit c"
    and "post = [] \<or> \<not> is_digit (hd post)"
  shows "re_search_digits (pre @ m @ post) = Some m"
  using assms(1)
proof (induction pre)
  case Nil
  from assms(2) obtain c cs where m: "m = c # cs" by (cases m) auto
  with assms(3) have c: "is_digit c" by simp
  have "takeWhile is_digit (m @ post) = m"
    using assms(3,4) by (rule takeWhile_run)
  with m c show ?case by simp
next
  case (Cons a pre)
  then show ?case by simp
qed

lemma digit_run_exists:
  assumes "\<exists>c\<in>set s. is_digit c"
  shows "\<exists>pre m post. s = pre @ m @ post \<and> (\<forall>c\<in>set pre. \<not> is_digit c) \<and> m \<noteq> [] \<and>
           (\<forall>c\<in>set m. is_digit c) \<and> (post = [] \<or> \<not> is_digit (hd post))"
proof -
  define pre where "pre = takeWhile (\<lambda>c. \<not> is_digit c) s"
  define r where "r = dropWhile (\<lambda>c. \<not> is_digit c) s"
  define m where "m = takeWhile is_digit r"
  define post where "post = dropWhile is_digit r"
  have s: "s = pre @ m @ post"
    by (simp add: pre_def r_def m_def post_def)
  have p: "\<forall>c\<in>set pre. \<not> is_digit c"
    by (auto simp: pre_def dest: set_takeWhileD)
  from assms have rn: "r \<noteq> []"
    by (auto simp: r_def)
  then have "is_digit (hd r)"
    unfolding r_def using hd_dropWhile [of "\<lambda>c. \<not> is_digit c" s] by simp
  with rn have mn: "m \<noteq> []"
    by (cases r) (auto simp: m_def)
  have md: "\<forall>c\<in>set m. is_digit c"
    by (auto simp: m_def dest: set_takeWhileD)
  have "post = [] \<or> \<not> is_digit (hd post)"
    unfolding post_def using hd_dropWhile [of is_digit r] by blast
  with s p mn md show ?thesis by blast
qed

text \<open>
  Claim C8. For a rating container whose date is read without an exception, Rate is
  "Unknown" when the widget is absent, when it has no aria-label, and when the label
  has no digit; otherwise it is the first maximal run of decimal digits of the label
  (the label is a digit-free prefix, then that run, then nothing or a non-digit).
  The label "Rated 4 out of 5 stars" gives "4".
\<close>

theorem C8_rate_is_first_digit_run:
  assumes "date_of W container = Inr date"
  shows "(soup_find W container ''div'' rate_element_class = Inr None \<longrightarrow>
            rate_time_of W container = Inr [(''Rate'', ''Unknown''), (''Time'', date)]) \<and>
         (\<forall>re. soup_find W container ''div'' rate_element_class = Inr (Some re) \<and>
               get_attr W re ''aria-label'' = Inr None \<longrightarrow>
            rate_time_of W container = Inr [(''Rate'', ''Unknown''), (''Time'', date)]) \<and>
         (\<forall>re label. soup_find W container ''div'' rate_element_class = Inr (Some re) \<and>
               get_attr W re ''aria-label'' = Inr (Some label) \<and> (\<forall>c\<in>set label. \<not> is_digit c) \<longrightarrow>
            rate_time_of W container = Inr [(''Rate'', ''Unknown''), (''Time'', date)]) \<and>
         (\<forall>re pre m post. soup_find W container ''div'' rate_element_class = Inr (Some re) \<and>
               get_attr W re ''aria-label'' = Inr (Some (pre @ m @ post)) \<and>
               (\<forall>c\<in>set pre. \<not> is_digit c) \<and> m \<noteq> [] \<and> (\<forall>c\<in>set m. is_digit c) \<and>
               (post = [] \<or> \<not> is_digit (hd post)) \<longrightarrow>
            rate_time_of W container = Inr [(''Rate'', m), (''Time'', date)]) \<and>
         (\<forall>re. soup_find W container ''div'' rate_element_class = Inr (Some re) \<and>
               get_attr W re ''aria-label'' = Inr (Some ''Rated 4 out of 5 stars'') \<longrightarrow>
            rate_time_of W container = Inr [(''Rate'', ''4''), (''Time'', date)])"
proof -
  have unknown: "re_search_digits ''Unknown'' = None"
    by (simp add: is_digit_def)
  have a: "soup_find W container ''div'' rate_element_class = Inr None \<longrightarrow>
            rate_time_of W container = Inr [(''Rate'', ''Unknown''), (''Time'', date)]"
    using assms unknown by (simp add: rate_time_of_def rate_of_def bind_exn_def)
  have b: "\<forall>re. soup_find W container ''div'' rate_element_class = Inr (Some re) \<and>
               get_attr W re ''aria-label'' = Inr None \<longrightarrow>
            rate_time_of W container = Inr [(''Rate'', ''Unknown''), (''Time'', date)]"
    using assms unknown by (simp add: rate_time_of_def rate_of_def bind_exn_def)
  have c: "\<forall>re label. soup_find W container ''div'' rate_element_class = Inr (Some re) \<and>
               get_attr W re ''aria-label'' = Inr (Some label) \<and> (\<forall>c\<in>set label. \<not> is_digit c) \<longrightarrow>
            rate_time_of W container = Inr [(''Rate'', ''Unknown''), (''Time'', date)]"
    using assms by (simp add: rate_time_of_def rate_of_def bind_exn_def re_search_digits_no_digit)
  have d: "\<forall>re pre m post. soup_find W container ''div'' rate_element_class = Inr (Some re) \<and>
               get_attr W re ''aria-label'' = Inr (Some (pre @ m @ post)) \<and>
               (\<forall>c\<in>set pre. \<not> is_digit c) \<and> m \<noteq> [] \<and> (\<forall>c\<in>set m. is_digit c) \<and>
               (post = [] \<or> \<not> is_digit (hd post)) \<longrightarrow>
            rate_time_of W container = Inr [(''Rate'', m), (''Time'', date)]"
    using assms by (simp add: rate_time_of_def rate_of_def bind_exn_def re_search_digits_first_run)
  have four: "re_search_digits ''Rated 4 out of 5 stars'' = Some ''4''"
    by (simp add: is_digit_def)
  have e: "\<forall>re. soup_find W container ''div'' rate_element_class = Inr (Some re) \<and>
               get_attr W re ''aria-label'' = Inr (Some ''Rated 4 out of 5 stars'') \<longrightarrow>
            rate_time_of W container = Inr [(''Rate'', ''4''), (''Time'', date)]"
    using assms four by (simp add: rate_time_of_def rate_of_def bind_exn_def)
  from a b c d e show ?thesis by blast
qed


theorem C8_rate_is_first_digit_run_witness:
  "rate_time_of (tree_web (site_of [page_one])) (div_class rate_container_class [], []) =
     Inr [(''Rate'', ''Unknown''), (''Time'', ''Unknown'')] \<and>
   rate_time_of (tree_web (site_of [page_one]))
     (div_class rate_container_class [div_class rate_element_class []], []) =
     Inr [(''Rate'', ''Unknown''), (''Time'', ''Unknown'')] \<and>
   rate_time_of (tree_web (site_of [page_one]))
     (div_class rate_container_class [stars ''Not rated''], []) =
     Inr [(''Rate'', ''Unknown''), (''Time'', ''Unknown'')] \<and>
   rate_time_of (tree_web (site_of [page_one]))
     (div_class rate_container_class [stars ''about 12 of 20''], []) =
     Inr [(''Rate'', ''12''), (''Time'', ''Unknown'')] \<and>
   rate_time_of (tree_web (site_of [page_one]))
     (div_class rate_container_class [stars ''Rated 4 out of 5 stars''], []) =
     Inr [(''Rate'', ''4''), (''Time'', ''Unknown'')]"
proof -
  let ?W = "tree_web (site_of [page_one])"
  let ?c0 = "(div_class rate_container_class [], [])"
  let ?c1 = "(div_class rate_container_class [div_class rate_element_class []], [])"
  let ?c2 = "(div_class rate_container_class [stars ''Not rated''], [])"
  let ?c3 = "(div_class rate_container_class [stars ''about 12 of 20''], [])"
  let ?c4 = "(div_class rate_container_class [stars ''Rated 4 out of 5 stars''], [])"
  have d0: "date_of ?W ?c0 = Inr ''Unknown''"
    by (simp add: date_of_def tree_web_def div_class_def bind_exn_def)
  have d1: "date_of ?W ?c1 = Inr ''Unknown''"
    by (simp add: date_of_def tree_web_def div_class_def bind_exn_def)
  have d2: "date_of ?W ?c2 = Inr ''Unknown''"
    by (simp add: date_of_def tree_web_def div_class_def stars_def bind_exn_def)
  have d3: "date_of ?W ?c3 = Inr ''Unknown''"
    by (simp add: date_of_def tree_web_def div_class_def stars_def bind_exn_def)
  have d4: "date_of ?W ?c4 = Inr ''Unknown''"
    by (simp add: date_of_def tree_web_def div_class_def stars_def bind_exn_def)
  have f0: "soup_find ?W ?c0 ''div'' rate_element_class = Inr None"
    by (simp add: tree_web_def div_class_def)
  have f1: "soup_find ?W ?c1 ''div'' rate_element_class = Inr (Some (div_class rate_element_class [], [])) \<and>
            get_attr ?W (div_class rate_element_class [], []) ''aria-label'' = Inr None"
    by (simp add: tree_web_def div_class_def)
  have f2: "soup_find ?W ?c2 ''div'' rate_element_class = Inr (Some (stars ''Not rated'', [])) \<and>
            get_attr ?W (stars ''Not rated'', []) ''aria-label'' = Inr (Some ''Not rated'') \<and>
            (\<forall>c\<in>set ''Not rated''. \<not> is_digit c)"
    by (simp add: tree_web_def div_class_def stars_def is_digit_def)
  have f3: "soup_find ?W ?c3 ''div'' rate_element_class = Inr (Some (stars ''about 12 of 20'', [])) \<and>
            get_attr ?W (stars ''about 12 of 20'', []) ''aria-label'' = Inr (Some (''about '' @ ''12'' @ '' of 20'')) \<and>
            (\<forall>c\<in>set ''about ''. \<not> is_digit c) \<and> ''12'' \<noteq> [] \<and> (\<forall>c\<in>set ''12''. is_digit c) \<and>
            ('' of 20'' = [] \<or> \<not> is_digit (hd '' of 20''))"
    by (simp add: tree_web_def div_class_def stars_def is_digit_def)
  have f4: "soup_find ?W ?c4 ''div'' rate_element_class = Inr (Some (stars ''Rated 4 out of 5 stars'', [])) \<and>
            get_attr ?W (stars ''Rated 4 out of 5 stars'', []) ''aria-label'' = Inr (Some ''Rated 4 out of 5 stars'')"
    by (simp add: tree_web_def div_class_def stars_def)
  from C8_rate_is_first_digit_run [OF d0] f0
  have r0: "rate_time_of ?W ?c0 = Inr [(''Rate'', ''Unknown''), (''Time'', ''Unknown'')]"
    by blast
  from C8_rate_is_first_digit_run [OF d1] f1
  have r1: "rate_time_of ?W ?c1 = Inr [(''Rate'', ''Unknown''), (''Time'', ''Unknown'')]"
    by blast
  from C8_rate_is_first_digit_run [OF d2] f2
  have r2: "rate_time_of ?W ?c2 = Inr [(''Rate'', ''Unknown''), (''Time'', ''Unknown'')]"
    by blast
  from C8_rate_is_first_digit_run [OF d3] f3
  have r3: "rate_time_of ?W ?c3 = Inr [(''Rate'', ''12''), (''Time'', ''Unknown'')]"
    by blast
  from C8_rate_is_first_digit_run [OF d4] f4
  have r4: "rate_time_of ?W ?c4 = Inr [(''Rate'', ''4''), (''Time'', ''Unknown'')]"
    by blast
  from r0 r1 r2 r3 r4 show ?thesis by blast
qed

section \<open>The application name\<close>

lemma takeWhile_up_to:
  "c \<notin> set xs \<Longrightarrow> takeWhile (\<lambda>x. x \<noteq> c) (xs @ c # ys) = xs"
  by (induction xs) auto

lemma first_occurrence_unique:
  assumes "c \<notin> set xs" and "c \<notin> set us" and "xs @ c # ys = us @ c # vs"
  shows "xs = us"
proof -
  have "takeWhile (\<lambda>x. x \<noteq> c) (xs @ c # ys) = xs"
    using assms(1) by (rule takeWhile_up_to)
  moreover have "takeWhile (\<lambda>x. x \<noteq> c) (us @ c # vs) = us"
    using assms(2) by (rule takeWhile_up_to)
  ultimately show ?thesis using assms(3) by simp
qed

lemma host_at_start:
  assumes "take (length ''apps.shopify.com/'') (seg @ ''/reviews'' @ rest) = ''apps.shopify.com/''"
    and "CHR ''/'' \<notin> set seg"
  shows "seg = ''apps.shopify.com''"
proof -
  let ?s = "seg @ ''/reviews'' @ rest"
  have "take (length ''apps.shopify.com/'') ?s @ drop (length ''apps.shopify.com/'') ?s = ?s"
    by (rule append_take_drop_id)
  with assms(1) have "''apps.shopify.com/'' @ drop (length ''apps.shopify.com/'') ?s = ?s"
    by simp
  then have eq: "seg @ CHR ''/'' # (''reviews'' @ rest) =
             ''apps.shopify.com'' @ CHR ''/'' # drop (length ''apps.shopify.com/'') ?s"
    by simp
  have nin: "CHR ''/'' \<notin> set ''apps.shopify.com''" by simp
  from assms(2) nin eq show ?thesis by (rule first_occurrence_unique)
qed

lemma find_sep_host_skips_segment:
  assumes "CHR ''/'' \<notin> set seg" and "\<not> suffix ''apps.shopify.com'' seg"
  shows "find_sep ''apps.shopify.com/'' (seg @ ''/reviews'' @ rest) =
           (case find_sep ''apps.shopify.com/'' rest of
              None \<Rightarrow> None
            | Some (a, b) \<Rightarrow> Some (seg @ ''/reviews'' @ a, b))"
  using assms
proof (induction seg)
  case Nil
  show ?case by (simp split: option.splits)
next
  case (Cons c seg)
  have ns: "\<not> suffix ''apps.shopify.com'' seg"
    using Cons.prems(2) by (auto simp: suffix_Cons)
  have nc: "CHR ''/'' \<notin> set seg"
    using Cons.prems(1) by simp
  have "take (length ''apps.shopify.com/'') ((c # seg) @ ''/reviews'' @ rest) \<noteq> ''apps.shopify.com/''"
  proof
    assume "take (length ''apps.shopify.com/'') ((c # seg) @ ''/reviews'' @ rest) = ''apps.shopify.com/''"
    from host_at_start [OF this Cons.prems(1)] Cons.prems(2) show False by simp
  qed
  then have "find_sep ''apps.shopify.com/'' ((c # seg) @ ''/reviews'' @ rest) =
      (case find_sep ''apps.shopify.com/'' (seg @ ''/reviews'' @ rest) of
         None \<Rightarrow> None | Some (a, b) \<Rightarrow> Some (c # a, b))"
    by (simp del: take_Suc_Cons length_Cons)
  also have "\<dots> = (case find_sep ''apps.shopify.com/'' rest of
              None \<Rightarrow> None
            | Some (a, b) \<Rightarrow> Some ((c # seg) @ ''/reviews'' @ a, b))"
    by (subst Cons.IH [OF nc ns]) (simp split: option.splits)
  finally show ?case .
qed

lemma find_sep_reviews:
  assumes "CHR ''/'' \<notin> set seg"
  shows "find_sep ''/reviews'' (seg @ ''/reviews'' @ x) = Some (seg, x)"
  using assms by (induction seg) auto

lemma segment_of_url:
  assumes "CHR ''/'' \<notin> set seg" and "\<not> suffix ''apps.shopify.com'' seg"
  shows "app_name_of (''https://apps.shopify.com/'' @ seg @ ''/reviews'' @ rest) =
           Inr (join '' '' (map capitalize (py_split ''-'' seg)))"
proof -
  define rem where "rem = seg @ ''/reviews'' @ rest"
  have f: "find_sep ''apps.shopify.com/'' rem =
             (case find_sep ''apps.shopify.com/'' rest of
                None \<Rightarrow> None
              | Some (a, b) \<Rightarrow> Some (seg @ ''/reviews'' @ a, b))"
    unfolding rem_def using assms by (rule find_sep_host_skips_segment)
  have 1: "find_sep ''apps.shopify.com/'' (''https://apps.shopify.com/'' @ rem) =
             Some (''https://'', rem)"
    by simp
  have 3: "py_split ''apps.shopify.com/'' (''https://apps.shopify.com/'' @ rem) =
             ''https://'' # py_split ''apps.shopify.com/'' rem"
    by (subst py_split.simps) (simp only: 1, simp)
  obtain x tail where 2: "py_split ''apps.shopify.com/'' rem = (seg @ ''/reviews'' @ x) # tail"
  proof (cases "find_sep ''apps.shopify.com/'' rest")
    case None
    have "py_split ''apps.shopify.com/'' rem = [rem]"
      by (subst py_split.simps) (simp only: f None, simp)
    then show ?thesis using that [of rest "[]"] by (simp only: rem_def)
  next
    case (Some p)
    obtain a b where p: "p = (a, b)" by (cases p)
    have "py_split ''apps.shopify.com/'' rem =
        (seg @ ''/reviews'' @ a) # py_split ''apps.shopify.com/'' b"
      by (subst py_split.simps) (simp only: f Some p, simp)
    then show ?thesis using that by blast
  qed
  have r: "find_sep ''/reviews'' (seg @ ''/reviews'' @ x) = Some (seg, x)"
    using assms(1) by (rule find_sep_reviews)
  have 4: "py_split ''/reviews'' (seg @ ''/reviews'' @ x) = seg # py_split ''/reviews'' x"
    by (subst py_split.simps) (simp only: r, simp)
  have "app_name_of (''https://apps.shopify.com/'' @ rem) =
           Inr (join '' '' (map capitalize (py_split ''-'' seg)))"
    by (simp only: app_name_of_def 3 2 4 list.case)
  then show ?thesis by (simp only: rem_def)
qed

lemma page_step_Next:
  assumes "app_name_of app_url = Inr name" and "page_step W app_url p st = Next st'"
  shows "\<exists>d lg rs. detail_scrap W (app_url @ str_nat p) = (Some d, lg) \<and> reviews d = Some rs \<and>
           (rs \<noteq> [] \<or> content d \<noteq> [] \<or> time_rate d \<noteq> []) \<and>
           st' = st\<lparr>combined_data := merge_loop name rs (content d) (time_rate d) (combined_data st),
                     log := log st @ lg @
                       [Info (''Extracted reviews and content from page '' @ str_nat p)]\<rparr>"
  using assms
  by (auto simp: page_step_def Let_def split: prod.splits option.splits if_splits)

lemma merge_loop_application_name:
  "\<exists>new. merge_loop name rs cs ts acc = acc @ new \<and>
         (\<forall>d\<in>set new. map_of d ''Application Name'' = Some name)"
  unfolding merge_loop_zip by auto

text \<open>
  Claim C7. The application name of a source URL is the path segment between the host
  and \<^verbatim>\<open>/reviews\<close>, split at hyphens, each piece capitalised, joined by single spaces.
  It is stated for the five sources of \<open>main\<close> and for every URL
  \<^verbatim>\<open>https://apps.shopify.com/<segment>/reviews...\<close> whose segment is a path segment (no
  slash) that does not itself end with the host name; \<^verbatim>\<open>google-customer-reviews-1\<close>
  gives "Google Customer Reviews 1". The name does not depend on the page: every
  record appended for any page of the source carries it.
\<close>

theorem C7_application_name:
  "map app_name_of base_url =
     [Inr ''Google Customer Reviews 1'', Inr ''Social Testimonial Slider'',
      Inr ''Reputon Testimonials'', Inr ''Product Reviews By Appio'', Inr ''Revie''] \<and>
   (CHR ''/'' \<notin> set seg \<and> \<not> suffix ''apps.shopify.com'' seg \<longrightarrow>
      app_name_of (''https://apps.shopify.com/'' @ seg @ ''/reviews'' @ rest) =
        Inr (join '' '' (map capitalize (py_split ''-'' seg)))) \<and>
   join '' '' (map capitalize (py_split ''-'' ''google-customer-reviews-1'')) =
     ''Google Customer Reviews 1'' \<and>
   (\<forall>name p st'. app_name_of app_url = Inr name \<and> page_step W app_url p st = Next st' \<longrightarrow>
      (\<exists>new. combined_data st' = combined_data st @ new \<and>
             (\<forall>d\<in>set new. map_of d ''Application Name'' = Some name)))"
proof -
  have a: "map app_name_of base_url =
     [Inr ''Google Customer Reviews 1'', Inr ''Social Testimonial Slider'',
      Inr ''Reputon Testimonials'', Inr ''Product Reviews By Appio'', Inr ''Revie'']"
    by code_simp
  have b: "CHR ''/'' \<notin> set seg \<and> \<not> suffix ''apps.shopify.com'' seg \<longrightarrow>
      app_name_of (''https://apps.shopify.com/'' @ seg @ ''/reviews'' @ rest) =
        Inr (join '' '' (map capitalize (py_split ''-'' seg)))"
    using segment_of_url by blast
  have c: "join '' '' (map capitalize (py_split ''-'' ''google-customer-reviews-1'')) =
     ''Google Customer Reviews 1''"
    by code_simp
  have d: "\<forall>name p st'. app_name_of app_url = Inr name \<and> page_step W app_url p st = Next st' \<longrightarrow>
      (\<exists>new. combined_data st' = combined_data st @ new \<and>
             (\<forall>d\<in>set new. map_of d ''Application Name'' = Some name))"
  proof (intro allI impI)
    fix name p st'
    assume h: "app_name_of app_url = Inr name \<and> page_step W app_url p st = Next st'"
    then have h1: "app_name_of app_url = Inr name" and h2: "page_step W app_url p st = Next st'"
      by simp_all
    from page_step_Next [OF h1 h2] obtain d :: scraped and lg rs where
      st': "st' = st\<lparr>combined_data := merge_loop name rs (content d) (time_rate d) (combined_data st),
                     log := log st @ lg @
                       [Info (''Extracted reviews and content from page '' @ str_nat p)]\<rparr>"
      by blast
    from merge_loop_application_name [of name rs "content d" "time_rate d" "combined_data st"] st'
    show "\<exists>new. combined_data st' = combined_data st @ new \<and>
             (\<forall>d\<in>set new. map_of d ''Application Name'' = Some name)"
      by simp
  qed
  from a b c d show ?thesis by (intro conjI)
qed

theorem C7_application_name_witness:
  "app_name_of first_url = Inr ''Google Customer Reviews 1'' \<and>
   (\<exists>st' new. page_step (tree_web (site_of [page_one, page_empty])) first_url 1
             \<lparr>combined_data = [], log = [], written = []\<rparr> = Next st' \<and>
           combined_data st' = new \<and> length new = 2 \<and>
           (\<forall>d\<in>set new. map_of d ''Application Name'' = Some ''Google Customer Reviews 1''))"
proof -
  let ?seg = "''google-customer-reviews-1''"
  let ?rest = "''?search_id=2e1fc3d9-d3c5-4254-acaf-bacae870ded4&page=''"
  let ?W = "tree_web (site_of [page_one, page_empty])"
  let ?st = "\<lparr>combined_data = [], log = [], written = []\<rparr>"
  let ?st' = "\<lparr>combined_data =
          [[(''Store'', ''Acme Store''), (''Location'', ''Canada''),
            (''Span'', ''About 2 years using the app''), (''Rate'', ''4''),
            (''Time'', ''May 1, 2024''), (''Review'', ''Great app''),
            (''Application Name'', ''Google Customer Reviews 1'')],
           [(''Store'', ''Solo Shop''), (''Location'', ''Unknown''),
            (''Span'', ''Unknown''), (''Rate'', ''Unknown''),
            (''Time'', ''Unknown''), (''Review'', ''Works''),
            (''Application Name'', ''Google Customer Reviews 1'')]],
          log =
            [Info
              ''Successfully fetched page: https://apps.shopify.com/google-customer-reviews-1/reviews?search_id=2e1fc3d9-d3c5-4254-acaf-bacae870ded4&page=1'',
             Info ''Extracted reviews and content from page 1''], written = []\<rparr>"
  have h: "CHR ''/'' \<notin> set ?seg \<and> \<not> suffix ''apps.shopify.com'' ?seg"
    by (simp add: suffix_to_prefix)
  have u: "''https://apps.shopify.com/'' @ ?seg @ ''/reviews'' @ ?rest = first_url"
    by simp
  have e: "join '' '' (map capitalize (py_split ''-'' ?seg)) = ''Google Customer Reviews 1''"
    by code_simp
  have step: "page_step ?W first_url 1 ?st = Next ?st'"
    by code_simp
  note t = C7_application_name [of ?seg ?rest first_url ?W ?st]
  from t h have "app_name_of (''https://apps.shopify.com/'' @ ?seg @ ''/reviews'' @ ?rest) =
        Inr (join '' '' (map capitalize (py_split ''-'' ?seg)))"
    by blast
  then have n: "app_name_of first_url = Inr ''Google Customer Reviews 1''"
    by (simp only: u e)
  from t n step obtain new where "combined_data ?st' = combined_data ?st @ new"
    and "\<forall>d\<in>set new. map_of d ''Application Name'' = Some ''Google Customer Reviews 1''"
    by blast
  with n step show ?thesis by auto
qed

section \<open>A page that cannot be fetched\<close>

lemma detail_scrap_failure:
  assumes "requests_get W url = Inl e \<or> (\<exists>r. requests_get W url = Inr r \<and> BeautifulSoup W r = Inl e)"
  shows "detail_scrap W url = (None, [Error (''Error scraping page '' @ url @ '': '' @ str_exn e)])"
  using assms by (auto simp: detail_scrap_def bind_exn_def)

lemma page_step_no_data:
  assumes "app_name_of app_url = Inr name"
    and "detail_scrap W (app_url @ str_nat p) = (None, lg)"
  shows "page_step W app_url p st =
           Stop (st\<lparr>log := log st @ lg @
                   [Info (''No more data found at page '' @ str_nat p @
                          ''. Ending scraping for '' @ name @ ''.'')]\<rparr>)"
  using assms by (simp add: page_step_def Let_def)

lemma page_step_all_empty:
  fixes d :: scraped
  assumes "app_name_of app_url = Inr name"
    and "detail_scrap W (app_url @ str_nat p) = (Some d, lg)"
    and "reviews d = None \<or> reviews d = Some []" and "content d = []" and "time_rate d = []"
  shows "page_step W app_url p st =
           Stop (st\<lparr>log := log st @ lg @
                   [Info (''No more data found at page '' @ str_nat p @
                          ''. Ending scraping for '' @ name @ ''.'')]\<rparr>)"
  using assms by (auto simp: page_step_def Let_def)

text \<open>
  Claim C5. When the fetch or the parse of a page raises, \<open>detail_scrap\<close> catches and
  logs it and returns the empty dict; the driver then ends the source at that page
  with the accumulator unchanged, exactly as it does for a page that was fetched and
  has all three groups empty: the same end-of-source message, the same accumulator.
\<close>

theorem C5_fetch_failure_ends_source:
  assumes "app_name_of app_url = Inr name"
    and "requests_get W (app_url @ str_nat p) = Inl e \<or>
         (\<exists>r. requests_get W (app_url @ str_nat p) = Inr r \<and> BeautifulSoup W r = Inl e)"
  shows "detail_scrap W (app_url @ str_nat p) =
           (None, [Error (''Error scraping page '' @ app_url @ str_nat p @ '': '' @ str_exn e)]) \<and>
         page_step W app_url p st =
           Stop (st\<lparr>log := log st @
                   [Error (''Error scraping page '' @ app_url @ str_nat p @ '': '' @ str_exn e),
                    Info (''No more data found at page '' @ str_nat p @
                          ''. Ending scraping for '' @ name @ ''.'')]\<rparr>) \<and>
         scrape_pages (Suc fuel) W app_url p st =
           Some (Inr (st\<lparr>log := log st @
                   [Error (''Error scraping page '' @ app_url @ str_nat p @ '': '' @ str_exn e),
                    Info (''No more data found at page '' @ str_nat p @
                          ''. Ending scraping for '' @ name @ ''.'')]\<rparr>)) \<and>
         (\<forall>W' :: ('r, 'n) web. \<forall>d :: scraped. \<forall>lg.
            detail_scrap W' (app_url @ str_nat p) = (Some d, lg) \<and>
            (reviews d = None \<or> reviews d = Some []) \<and> content d = [] \<and> time_rate d = [] \<longrightarrow>
            page_step W' app_url p st =
              Stop (st\<lparr>log := log st @ lg @
                      [Info (''No more data found at page '' @ str_nat p @
                             ''. Ending scraping for '' @ name @ ''.'')]\<rparr>))"
proof -
  have a: "detail_scrap W (app_url @ str_nat p) =
           (None, [Error (''Error scraping page '' @ app_url @ str_nat p @ '': '' @ str_exn e)])"
    using detail_scrap_failure [OF assms(2)] by simp
  have b: "page_step W app_url p st =
           Stop (st\<lparr>log := log st @
                   [Error (''Error scraping page '' @ app_url @ str_nat p @ '': '' @ str_exn e),
                    Info (''No more data found at page '' @ str_nat p @
                          ''. Ending scraping for '' @ name @ ''.'')]\<rparr>)"
    using page_step_no_data [OF assms(1) a] by simp
  have c: "scrape_pages (Suc fuel) W app_url p st =
           Some (Inr (st\<lparr>log := log st @
                   [Error (''Error scraping page '' @ app_url @ str_nat p @ '': '' @ str_exn e),
                    Info (''No more data found at page '' @ str_nat p @
                          ''. Ending scraping for '' @ name @ ''.'')]\<rparr>))"
    by (simp add: b)
  have d: "\<forall>W' :: ('r, 'n) web. \<forall>d :: scraped. \<forall>lg.
            detail_scrap W' (app_url @ str_nat p) = (Some d, lg) \<and>
            (reviews d = None \<or> reviews d = Some []) \<and> content d = [] \<and> time_rate d = [] \<longrightarrow>
            page_step W' app_url p st =
              Stop (st\<lparr>log := log st @ lg @
                      [Info (''No more data found at page '' @ str_nat p @
                             ''. Ending scraping for '' @ name @ ''.'')]\<rparr>)"
    using page_step_all_empty [OF assms(1)] by blast
  from a b c d show ?thesis by (intro conjI)
qed

theorem C5_fetch_failure_ends_source_witness:
  "scrape_pages 1 (tree_web site_down) first_url 1 \<lparr>combined_data = [], log = [], written = []\<rparr> =
     Some (Inr \<lparr>combined_data = [],
       log = [Error ''Error scraping page https://apps.shopify.com/google-customer-reviews-1/reviews?search_id=2e1fc3d9-d3c5-4254-acaf-bacae870ded4&page=1: Connection refused'',
              Info ''No more data found at page 1. Ending scraping for Google Customer Reviews 1.''],
       written = []\<rparr>) \<and>
   page_step (tree_web (site_of [page_empty])) first_url 1 \<lparr>combined_data = [], log = [], written = []\<rparr> =
     Stop \<lparr>combined_data = [],
       log = [Info ''Successfully fetched page: https://apps.shopify.com/google-customer-reviews-1/reviews?search_id=2e1fc3d9-d3c5-4254-acaf-bacae870ded4&page=1'',
              Info ''No more data found at page 1. Ending scraping for Google Customer Reviews 1.''],
       written = []\<rparr>"
proof -
  let ?st = "\<lparr>combined_data = [], log = [], written = []\<rparr>"
  have n: "app_name_of first_url = Inr ''Google Customer Reviews 1''"
    by code_simp
  have f: "requests_get (tree_web site_down) (first_url @ str_nat 1) = Inl (Exception ''Connection refused'') \<or>
         (\<exists>r. requests_get (tree_web site_down) (first_url @ str_nat 1) = Inr r \<and>
              BeautifulSoup (tree_web site_down) r = Inl (Exception ''Connection refused''))"
    by (simp add: tree_web_def site_down_def)
  have one: "str_nat (Suc 0) = ''1''"
    by code_simp
  have d: "detail_scrap (tree_web (site_of [page_empty])) (first_url @ str_nat 1) =
      (Some \<lparr>reviews = Some [], content = [], time_rate = []\<rparr>,
       [Info ''Successfully fetched page: https://apps.shopify.com/google-customer-reviews-1/reviews?search_id=2e1fc3d9-d3c5-4254-acaf-bacae870ded4&page=1''])"
    by code_simp
  note t = C5_fetch_failure_ends_source [OF n f, of ?st 0]
  from t have 1: "scrape_pages (Suc 0) (tree_web site_down) first_url 1 ?st =
           Some (Inr (?st\<lparr>log := log ?st @
                   [Error (''Error scraping page '' @ first_url @ str_nat 1 @ '': '' @
                           str_exn (Exception ''Connection refused'')),
                    Info (''No more data found at page '' @ str_nat 1 @
                          ''. Ending scraping for '' @ ''Google Customer Reviews 1'' @ ''.'')]\<rparr>))"
    by blast
  note q = t [THEN conjunct2, THEN conjunct2, THEN conjunct2, rule_format]
  have 2: "page_step (tree_web (site_of [page_empty])) first_url 1 ?st =
              Stop (?st\<lparr>log := log ?st @
                 [Info ''Successfully fetched page: https://apps.shopify.com/google-customer-reviews-1/reviews?search_id=2e1fc3d9-d3c5-4254-acaf-bacae870ded4&page=1''] @
                      [Info (''No more data found at page '' @ str_nat 1 @
                             ''. Ending scraping for '' @ ''Google Customer Reviews 1'' @ ''.'')]\<rparr>)"
    by (rule q [where d = "\<lparr>reviews = Some [], content = [], time_rate = []\<rparr>"]) (insert d, simp)
  from 1 2 show ?thesis by (simp add: one del: scrape_pages.simps)
qed

section \<open>The output table\<close>

lemma first_seen_known: "set ks \<subseteq> set seen \<Longrightarrow> first_seen seen ks = seen"
  by (induction ks) auto

lemma first_seen_new: "distinct (seen @ ks) \<Longrightarrow> first_seen seen ks = seen @ ks"
  by (induction ks arbitrary: seen) auto

lemma first_seen_append: "first_seen seen (ks @ ls) = first_seen (first_seen seen ks) ls"
  by (induction ks arbitrary: seen) auto

lemma first_seen_same_keys:
  assumes "ds \<noteq> []" and "\<forall>d\<in>set ds. map fst d = cols" and "distinct cols"
  shows "first_seen [] (concat (map (map fst) ds)) = cols"
proof -
  from assms(1) obtain d ds' where ds: "ds = d # ds'" by (cases ds) auto
  with assms(2) have d: "map fst d = cols" and r: "\<forall>d\<in>set ds'. map fst d = cols"
    by auto
  from r have "set (concat (map (map fst) ds')) \<subseteq> set cols"
    by auto
  then have "first_seen cols (concat (map (map fst) ds')) = cols"
    by (rule first_seen_known)
  moreover from assms(3) have "first_seen [] cols = cols"
    using first_seen_new [of "[]" cols] by simp
  ultimately show ?thesis
    by (simp add: ds d first_seen_append)
qed

lemma map_of_own_keys:
  "distinct (map fst d) \<Longrightarrow> map (map_of d) (map fst d) = map (\<lambda>(k, v). Some v) d"
proof (induction d)
  case Nil
  then show ?case by simp
next
  case (Cons kv d)
  obtain k v where kv: "kv = (k, v)" by (cases kv)
  from Cons.prems kv have k: "k \<notin> fst ` set d" and dd: "distinct (map fst d)"
    by auto
  have "map (map_of ((k, v) # d)) (map fst d) = map (map_of d) (map fst d)"
    using k by (intro map_cong) auto
  with Cons.IH [OF dd] show ?case
    by (simp add: kv)
qed

lemma DataFrame_same_keys:
  assumes "ds \<noteq> []" and "\<forall>d\<in>set ds. map fst d = cols" and "distinct cols"
  shows "DataFrame ds = \<lparr>columns = cols, rows = map (map (\<lambda>(k, v). Some v)) ds\<rparr>"
proof -
  have c: "first_seen [] (concat (map (map fst) ds)) = cols"
    using assms by (rule first_seen_same_keys)
  have "map (\<lambda>d. map (map_of d) cols) ds = map (map (\<lambda>(k, v). Some v)) ds"
  proof (rule map_cong [OF refl])
    fix d assume "d \<in> set ds"
    with assms(2) have m: "map fst d = cols" by simp
    with assms(3) have "distinct (map fst d)" by simp
    from map_of_own_keys [OF this] m show "map (map_of d) cols = map (\<lambda>(k, v). Some v) d"
      by simp
  qed
  with c show ?thesis by (simp add: DataFrame_def)
qed

lemma merge_loop_keys:
  assumes "\<forall>d\<in>set acc. map fst d = [''Store'', ''Location'', ''Span'', ''Rate'', ''Time'', ''Review'', ''Application Name'']"
  shows "\<forall>d\<in>set (merge_loop name rs cs ts acc).
           map fst d = [''Store'', ''Location'', ''Span'', ''Rate'', ''Time'', ''Review'', ''Application Name'']"
  using assms by (induction name rs cs ts acc rule: merge_loop.induct) simp_all

lemma page_step_Next_state:
  assumes "page_step W app_url p st = Next st'"
  shows "written st' = written st \<and>
         (\<exists>name rs cs ts. combined_data st' = merge_loop name rs cs ts (combined_data st))"
proof (cases "app_name_of app_url")
  case (Inl e)
  with assms show ?thesis by (simp add: page_step_def)
next
  case (Inr name)
  from page_step_Next [OF Inr assms] obtain d :: scraped and lg rs where
    st': "st' = st\<lparr>combined_data := merge_loop name rs (content d) (time_rate d) (combined_data st),
                     log := log st @ lg @
                       [Info (''Extracted reviews and content from page '' @ str_nat p)]\<rparr>"
    by blast
  have w: "written st' = written st"
    by (simp add: st')
  have "combined_data st' = merge_loop name rs (content d) (time_rate d) (combined_data st)"
    by (simp add: st')
  with w show ?thesis by blast
qed

lemma page_step_Stop_state:
  assumes "page_step W app_url p st = Stop st'"
  shows "written st' = written st \<and> combined_data st' = combined_data st"
  using assms
  by (auto simp: page_step_def Let_def split: sum.splits prod.splits option.splits if_splits)

lemma scrape_pages_invariant:
  assumes "scrape_pages fuel W app_url p st = Some (Inr st')"
    and "\<forall>d\<in>set (combined_data st). map fst d = [''Store'', ''Location'', ''Span'', ''Rate'', ''Time'', ''Review'', ''Application Name'']"
  shows "written st' = written st \<and>
         (\<forall>d\<in>set (combined_data st'). map fst d = [''Store'', ''Location'', ''Span'', ''Rate'', ''Time'', ''Review'', ''Application Name''])"
  using assms
proof (induction fuel arbitrary: p st)
  case 0
  then show ?case by simp
next
  case (Suc fuel)
  show ?case
  proof (cases "page_step W app_url p st")
    case (Next st1)
    with Suc.prems(1) have run: "scrape_pages fuel W app_url (p + 1) st1 = Some (Inr st')"
      by simp
    from page_step_Next_state [OF Next] obtain name rs cs ts where
      w: "written st1 = written st" and
      c: "combined_data st1 = merge_loop name rs cs ts (combined_data st)"
      by blast
    from merge_loop_keys [OF Suc.prems(2)] c
    have "\<forall>d\<in>set (combined_data st1). map fst d = [''Store'', ''Location'', ''Span'', ''Rate'', ''Time'', ''Review'', ''Application Name'']"
      by simp
    from Suc.IH [OF run this] w show ?thesis by simp
  next
    case (Stop st1)
    with Suc.prems(1) have "st' = st1" by simp
    with page_step_Stop_state [OF Stop] Suc.prems(2) show ?thesis by simp
  next
    case (Raise e)
    with Suc.prems(1) show ?thesis by simp
  qed
qed

lemma scrape_all_invariant:
  assumes "scrape_all fuel W urls st = Some (Inr st')"
    and "\<forall>d\<in>set (combined_data st). map fst d = [''Store'', ''Location'', ''Span'', ''Rate'', ''Time'', ''Review'', ''Application Name'']"
  shows "written st' = written st \<and>
         (\<forall>d\<in>set (combined_data st'). map fst d = [''Store'', ''Location'', ''Span'', ''Rate'', ''Time'', ''Review'', ''Application Name''])"
  using assms
proof (induction urls arbitrary: st)
  case Nil
  then show ?case by simp
next
  case (Cons u urls)
  from Cons.prems(1) obtain st1 where
    one: "scrape_pages fuel W u 1 st = Some (Inr st1)" and
    more: "scrape_all fuel W urls st1 = Some (Inr st')"
    by (auto split: option.splits sum.splits)
  from scrape_pages_invariant [OF one Cons.prems(2)]
  have w: "written st1 = written st" and
    k: "\<forall>d\<in>set (combined_data st1). map fst d = [''Store'', ''Location'', ''Span'', ''Rate'', ''Time'', ''Review'', ''Application Name'']"
    by simp_all
  from Cons.IH [OF more k] w show ?case by simp
qed

text \<open>
  Claim C6. When the loop over all sources has ended with the accumulator
  \<open>combined_data st\<close>, \<open>main\<close> returns; if the accumulator is not empty, exactly one file
  has been written, a table with the columns Store, Location, Span, Rate, Time,
  Review, Application Name in this order and one row per record, holding the record's
  values in that order; if it is empty, no file has been written and the last log
  entry says that nothing was extracted.
\<close>

theorem C6_single_table_or_message:
  assumes "scrape_all fuel W base_url \<lparr>combined_data = [], log = [], written = []\<rparr> = Some (Inr st)"
  shows "\<exists>out. main fuel W = Some (Inr out) \<and> combined_data out = combined_data st \<and>
           (combined_data st \<noteq> [] \<longrightarrow>
              written out =
                [(''shopify__reviews.csv'',
                  \<lparr>columns = [''Store'', ''Location'', ''Span'', ''Rate'', ''Time'', ''Review'',
                              ''Application Name''],
                   rows = map (map (\<lambda>(k, v). Some v)) (combined_data st)\<rparr>)] \<and>
              length (rows (snd (hd (written out)))) = length (combined_data st)) \<and>
           (combined_data st = [] \<longrightarrow>
              written out = [] \<and>
              log out = log st @ [Info ''No reviews or content were extracted.''])"
proof -
  let ?cols = "[''Store'', ''Location'', ''Span'', ''Rate'', ''Time'', ''Review'', ''Application Name'']"
  have "\<forall>d\<in>set (combined_data \<lparr>combined_data = [], log = [], written = []\<rparr>). map fst d = ?cols"
    by simp
  from scrape_all_invariant [OF assms this]
  have w: "written st = []" and k: "\<forall>d\<in>set (combined_data st). map fst d = ?cols"
    by simp_all
  have m: "main fuel W = Some (Inr (save st))"
    by (simp only: main_def assms option.case sum.case)
  have dc: "distinct ?cols" by simp
  show ?thesis
  proof (cases "combined_data st = []")
    case True
    with m w show ?thesis by (simp add: save_def)
  next
    case False
    from DataFrame_same_keys [OF False k dc]
    have "DataFrame (combined_data st) =
            \<lparr>columns = ?cols, rows = map (map (\<lambda>(k, v). Some v)) (combined_data st)\<rparr>" .
    with False m w show ?thesis by (simp add: save_def)
  qed
qed

theorem C6_single_table_or_message_witness:
  "(\<exists>out. main 3 (tree_web (site_of [page_one, page_empty])) = Some (Inr out) \<and>
      written out =
        [(''shopify__reviews.csv'',
          \<lparr>columns = [''Store'', ''Location'', ''Span'', ''Rate'', ''Time'', ''Review'',
                      ''Application Name''],
           rows = [[Some ''Acme Store'', Some ''Canada'', Some ''About 2 years using the app'',
                    Some ''4'', Some ''May 1, 2024'', Some ''Great app'',
                    Some ''Google Customer Reviews 1''],
                   [Some ''Solo Shop'', Some ''Unknown'', Some ''Unknown'', Some ''Unknown'',
                    Some ''Unknown'', Some ''Works'', Some ''Google Customer Reviews 1'']]\<rparr>)]) \<and>
   (\<exists>out. main 1 (tree_web site_down) = Some (Inr out) \<and> written out = [] \<and>
      last (log out) = Info ''No reviews or content were extracted.'')"
proof -
  let ?init = "\<lparr>combined_data = [], log = [], written = []\<rparr>"
  let ?W1 = "tree_web (site_of [page_one, page_empty])"
  let ?W2 = "tree_web site_down"
  let ?data = "[[(''Store'', ''Acme Store''), (''Location'', ''Canada''),
            (''Span'', ''About 2 years using the app''), (''Rate'', ''4''),
            (''Time'', ''May 1, 2024''), (''Review'', ''Great app''),
            (''Application Name'', ''Google Customer Reviews 1'')],
           [(''Store'', ''Solo Shop''), (''Location'', ''Unknown''),
            (''Span'', ''Unknown''), (''Rate'', ''Unknown''),
            (''Time'', ''Unknown''), (''Review'', ''Works''),
            (''Application Name'', ''Google Customer Reviews 1'')]]"
  have "(case scrape_all 3 ?W1 base_url ?init of
           Some (Inr s) \<Rightarrow> combined_data s = ?data | _ \<Rightarrow> False)"
    by code_simp
  then obtain st1 where a1: "scrape_all 3 ?W1 base_url ?init = Some (Inr st1)"
    and c1: "combined_data st1 = ?data"
    by (cases "scrape_all 3 ?W1 base_url ?init")
       (auto split: sum.splits simp del: scrape_all.simps)
  have "(case scrape_all 1 ?W2 base_url ?init of
           Some (Inr s) \<Rightarrow> combined_data s = [] | _ \<Rightarrow> False)"
    by code_simp
  then obtain st2 where a2: "scrape_all 1 ?W2 base_url ?init = Some (Inr st2)"
    and c2: "combined_data st2 = []"
    by (cases "scrape_all 1 ?W2 base_url ?init")
       (auto split: sum.splits simp del: scrape_all.simps)
  from C6_single_table_or_message [OF a1] c1 have 1:
    "\<exists>out. main 3 ?W1 = Some (Inr out) \<and>
       written out = [(''shopify__reviews.csv'',
          \<lparr>columns = [''Store'', ''Location'', ''Span'', ''Rate'', ''Time'', ''Review'',
                      ''Application Name''],
           rows = map (map (\<lambda>(k, v). Some v)) ?data\<rparr>)]"
    by auto
  from C6_single_table_or_message [OF a2] c2 have 2:
    "\<exists>out. main 1 ?W2 = Some (Inr out) \<and> written out = [] \<and>
       last (log out) = Info ''No reviews or content were extracted.''"
    by auto
  from 1 2 show ?thesis by simp
qed

section \<open>A page without the main container\<close>

lemma extract_reviews_absent:
  assumes "soup_find W soup ''div'' main_container_class = Inr None"
  shows "extract_reviews W soup = (None, [Warning ''Main container not found on this page''])"
  using assms by (simp add: extract_reviews_def extract_reviews_body_def bind_exn_def)

lemma extract_reviews_no_titles:
  assumes "soup_find W soup ''div'' main_container_class = Inr (Some mc)"
    and "find_all W mc ''div'' review_element_class = Inr []"
  shows "extract_reviews W soup = (Some [], [])"
  using assms by (simp add: extract_reviews_def extract_reviews_body_def bind_exn_def)

lemma detail_scrap_fetched:
  assumes "requests_get W url = Inr r" and "BeautifulSoup W r = Inr soup"
  shows "detail_scrap W url =
           (Some \<lparr>reviews = fst (extract_reviews W soup), content = fst (extract_content W soup),
                   time_rate = fst (time_rate_scrap W soup)\<rparr>,
            Info (''Successfully fetched page: '' @ url) # snd (extract_reviews W soup) @
              snd (extract_content W soup) @ snd (time_rate_scrap W soup))"
  using assms by (simp add: detail_scrap_def bind_exn_def split: prod.splits)

text \<open>
  What \<open>extract_reviews\<close> does on a page without the main container: it logs the
  warning and returns \<open>None\<close>; for a container that is there but holds no title node
  it returns the empty list. The test of line 133 takes both for "no identities": a
  page with no container, no content block and no rating ends the source.
\<close>

lemma missing_container_gives_None:
  assumes "soup_find W soup ''div'' main_container_class = Inr None"
  shows "extract_reviews W soup = (None, [Warning ''Main container not found on this page'']) \<and>
         (\<forall>soup' mc. soup_find W soup' ''div'' main_container_class = Inr (Some mc) \<and>
                      find_all W mc ''div'' review_element_class = Inr [] \<longrightarrow>
            extract_reviews W soup' = (Some [], []) \<and>
            fst (extract_reviews W soup') \<noteq> fst (extract_reviews W soup)) \<and>
         (\<forall>app_url name p st r l2 l3.
            app_name_of app_url = Inr name \<and> requests_get W (app_url @ str_nat p) = Inr r \<and>
            BeautifulSoup W r = Inr soup \<and> extract_content W soup = ([], l2) \<and>
            time_rate_scrap W soup = ([], l3) \<longrightarrow>
            (\<exists>st'. page_step W app_url p st = Stop st' \<and> combined_data st' = combined_data st))"
proof -
  have a: "extract_reviews W soup = (None, [Warning ''Main container not found on this page''])"
    using assms by (rule extract_reviews_absent)
  have b: "\<forall>soup' mc. soup_find W soup' ''div'' main_container_class = Inr (Some mc) \<and>
                      find_all W mc ''div'' review_element_class = Inr [] \<longrightarrow>
            extract_reviews W soup' = (Some [], []) \<and>
            fst (extract_reviews W soup') \<noteq> fst (extract_reviews W soup)"
    using a extract_reviews_no_titles by fastforce
  have c: "\<forall>app_url name p st r l2 l3.
            app_name_of app_url = Inr name \<and> requests_get W (app_url @ str_nat p) = Inr r \<and>
            BeautifulSoup W r = Inr soup \<and> extract_content W soup = ([], l2) \<and>
            time_rate_scrap W soup = ([], l3) \<longrightarrow>
            (\<exists>st'. page_step W app_url p st = Stop st' \<and> combined_data st' = combined_data st)"
  proof (intro allI impI)
    fix app_url name p st r l2 l3
    assume h: "app_name_of app_url = Inr name \<and> requests_get W (app_url @ str_nat p) = Inr r \<and>
            BeautifulSoup W r = Inr soup \<and> extract_content W soup = ([], l2) \<and>
            time_rate_scrap W soup = ([], l3)"
    then have n: "app_name_of app_url = Inr name" and g: "requests_get W (app_url @ str_nat p) = Inr r"
      and bs: "BeautifulSoup W r = Inr soup" and ec: "extract_content W soup = ([], l2)"
      and tr: "time_rate_scrap W soup = ([], l3)"
      by simp_all
    from detail_scrap_fetched [OF g bs] a ec tr
    have d: "detail_scrap W (app_url @ str_nat p) =
        (Some \<lparr>reviews = None, content = [], time_rate = []\<rparr>,
         Info (''Successfully fetched page: '' @ app_url @ str_nat p) #
           [Warning ''Main container not found on this page''] @ l2 @ l3)"
      by simp
    have "page_step W app_url p st =
           Stop (st\<lparr>log := log st @
                   (Info (''Successfully fetched page: '' @ app_url @ str_nat p) #
                      [Warning ''Main container not found on this page''] @ l2 @ l3) @
                   [Info (''No more data found at page '' @ str_nat p @
                          ''. Ending scraping for '' @ name @ ''.'')]\<rparr>)"
      by (rule page_step_all_empty [OF n d]) simp_all
    then show "\<exists>st'. page_step W app_url p st = Stop st' \<and> combined_data st' = combined_data st"
      by simp
  qed
  from a b c show ?thesis by (intro conjI)
qed

text \<open>
  Claim C2 at a page that has a content block but no main container. The identity
  extraction logs the warning and returns \<open>None\<close>. By the claim the caller takes this
  for "no identity data", as it does for the page that has the container without any
  title node, where it appends nothing and goes on to the next page; on \<open>None\<close> the
  caller raises TypeError from \<^verbatim>\<open>zip\<close> instead.
\<close>

theorem C2_no_container_with_content_aborts:
  "extract_reviews (tree_web (site_of [page_content_only])) (page_content_only, []) =
     (None, [Warning ''Main container not found on this page'']) \<and>
   page_step (tree_web (site_of [page_content_only])) first_url 1
     \<lparr>combined_data = [], log = [], written = []\<rparr> =
     Raise (TypeError ''zip argument #1 must support iteration'') \<and>
   extract_reviews
     (tree_web (site_of [Tag ''html'' []
        [div_class main_container_class [],
         div_class content_element_class [NavigableString ''Nice'']]]))
     (Tag ''html'' []
        [div_class main_container_class [],
         div_class content_element_class [NavigableString ''Nice'']], []) = (Some [], []) \<and>
   page_step
     (tree_web (site_of [Tag ''html'' []
        [div_class main_container_class [],
         div_class content_element_class [NavigableString ''Nice'']]]))
     first_url 1 \<lparr>combined_data = [], log = [], written = []\<rparr> =
     Next \<lparr>combined_data = [],
            log = [Info ''Successfully fetched page: https://apps.shopify.com/google-customer-reviews-1/reviews?search_id=2e1fc3d9-d3c5-4254-acaf-bacae870ded4&page=1'',
                   Info ''Extracted reviews and content from page 1''],
            written = []\<rparr>"
  by code_simp

theorem C2_no_container_with_content_aborts_witness:
  "\<forall>st'. page_step (tree_web (site_of [page_content_only])) first_url 1
           \<lparr>combined_data = [], log = [], written = []\<rparr> \<noteq> Next st'"
  using C2_no_container_with_content_aborts by simp

section \<open>Exceptions inside the extractors\<close>

lemma extract_reviews_caught:
  assumes "extract_reviews_body W soup = Inl e"
  shows "extract_reviews W soup = (None, [Error (''Error extracting reviews: '' @ str_exn e)])"
  using assms by (simp add: extract_reviews_def)

lemma extract_content_caught:
  assumes "extract_content_body W soup = Inl e"
  shows "extract_content W soup = ([], [Error (''Error extracting content: '' @ str_exn e)])"
  using assms by (simp add: extract_content_def)

lemma time_rate_scrap_caught:
  assumes "time_rate_scrap_body W soup = Inl e"
  shows "time_rate_scrap W soup =
           ([[(''Rate'', ''Unknown''), (''Time'', ''Unknown'')]],
            [Error (''Error extracting rate/time: '' @ str_exn e)])"
  using assms by (simp add: time_rate_scrap_def)

lemma page_step_list_never_raises:
  fixes d :: scraped
  assumes "app_name_of app_url = Inr name"
    and "detail_scrap W (app_url @ str_nat p) = (Some d, lg)" and "reviews d = Some rs"
  shows "page_step W app_url p st \<noteq> Raise e"
  using assms by (auto simp: page_step_def Let_def)

lemma page_step_None_with_data:
  fixes d :: scraped
  assumes "app_name_of app_url = Inr name"
    and "detail_scrap W (app_url @ str_nat p) = (Some d, lg)" and "reviews d = None"
    and "content d \<noteq> [] \<or> time_rate d \<noteq> []"
  shows "page_step W app_url p st = Raise (TypeError ''zip argument #1 must support iteration'')"
  using assms by (auto simp: page_step_def Let_def)

text \<open>
  What holds of exceptions inside the extractors: each extractor catches and logs
  its own exception and returns its value for that case (\<open>None\<close> for the identities,
  the empty list for the content, one record with "Unknown" twice for the ratings);
  \<open>detail_scrap\<close> calls the three extractors on the same page one after the other and
  returns the three results, so an exception in one of them does not keep the other
  two from being extracted; and when the identities are a list, no exception leaves
  the iteration of the driver for that page.
\<close>

lemma extraction_exceptions_are_local:
  "(extract_reviews_body W soup = Inl e \<longrightarrow>
      extract_reviews W soup = (None, [Error (''Error extracting reviews: '' @ str_exn e)])) \<and>
   (extract_content_body W soup = Inl e \<longrightarrow>
      extract_content W soup = ([], [Error (''Error extracting content: '' @ str_exn e)])) \<and>
   (time_rate_scrap_body W soup = Inl e \<longrightarrow>
      time_rate_scrap W soup =
        ([[(''Rate'', ''Unknown''), (''Time'', ''Unknown'')]],
         [Error (''Error extracting rate/time: '' @ str_exn e)])) \<and>
   (requests_get W url = Inr r \<and> BeautifulSoup W r = Inr soup \<longrightarrow>
      detail_scrap W url =
        (Some \<lparr>reviews = fst (extract_reviews W soup), content = fst (extract_content W soup),
                time_rate = fst (time_rate_scrap W soup)\<rparr>,
         Info (''Successfully fetched page: '' @ url) # snd (extract_reviews W soup) @
           snd (extract_content W soup) @ snd (time_rate_scrap W soup))) \<and>
   (\<forall>app_url name p st rs x.
      app_name_of app_url = Inr name \<and> requests_get W (app_url @ str_nat p) = Inr r \<and>
      BeautifulSoup W r = Inr soup \<and> fst (extract_reviews W soup) = Some rs \<longrightarrow>
      page_step W app_url p st \<noteq> Raise x)"
proof -
  have 5: "\<forall>app_url name p st rs x.
      app_name_of app_url = Inr name \<and> requests_get W (app_url @ str_nat p) = Inr r \<and>
      BeautifulSoup W r = Inr soup \<and> fst (extract_reviews W soup) = Some rs \<longrightarrow>
      page_step W app_url p st \<noteq> Raise x"
  proof (intro allI impI)
    fix app_url name p st rs x
    assume h: "app_name_of app_url = Inr name \<and> requests_get W (app_url @ str_nat p) = Inr r \<and>
      BeautifulSoup W r = Inr soup \<and> fst (extract_reviews W soup) = Some rs"
    then have n: "app_name_of app_url = Inr name" and g: "requests_get W (app_url @ str_nat p) = Inr r"
      and bs: "BeautifulSoup W r = Inr soup" and rs: "fst (extract_reviews W soup) = Some rs"
      by simp_all
    show "page_step W app_url p st \<noteq> Raise x"
      by (rule page_step_list_never_raises [OF n detail_scrap_fetched [OF g bs]]) (simp add: rs)
  qed
  have 1: "extract_reviews_body W soup = Inl e \<longrightarrow>
      extract_reviews W soup = (None, [Error (''Error extracting reviews: '' @ str_exn e)])"
    by (simp add: extract_reviews_caught)
  have 2: "extract_content_body W soup = Inl e \<longrightarrow>
      extract_content W soup = ([], [Error (''Error extracting content: '' @ str_exn e)])"
    by (simp add: extract_content_caught)
  have 3: "time_rate_scrap_body W soup = Inl e \<longrightarrow>
      time_rate_scrap W soup =
        ([[(''Rate'', ''Unknown''), (''Time'', ''Unknown'')]],
         [Error (''Error extracting rate/time: '' @ str_exn e)])"
    by (simp add: time_rate_scrap_caught)
  have 4: "requests_get W url = Inr r \<and> BeautifulSoup W r = Inr soup \<longrightarrow>
      detail_scrap W url =
        (Some \<lparr>reviews = fst (extract_reviews W soup), content = fst (extract_content W soup),
                time_rate = fst (time_rate_scrap W soup)\<rparr>,
         Info (''Successfully fetched page: '' @ url) # snd (extract_reviews W soup) @
           snd (extract_content W soup) @ snd (time_rate_scrap W soup))"
    using detail_scrap_fetched [of W url r soup] by blast
  from 1 2 3 4 5 show ?thesis by (intro conjI)
qed

text \<open>
  Claim C1 at a page with reviews on which the search for the main container
  raises. The exception is caught and logged by \<open>extract_reviews\<close>, and the content and
  the ratings of the page are still extracted. By the claim the identities are then
  an empty sequence and the loop over the pages goes on; the code returns \<open>None\<close> for
  them, and the TypeError of \<^verbatim>\<open>zip\<close> on it leaves \<open>main\<close>, which writes nothing.
\<close>

theorem C1_identity_exception_aborts_main:
  "extract_reviews_body (broken_find_web (site_of [page_one, page_empty])) (page_one, []) =
     Inl (Exception ''maximum recursion depth exceeded'') \<and>
   extract_reviews (broken_find_web (site_of [page_one, page_empty])) (page_one, []) =
     (None, [Error ''Error extracting reviews: maximum recursion depth exceeded'']) \<and>
   fst (extract_content (broken_find_web (site_of [page_one, page_empty])) (page_one, [])) =
     [''Great app'', ''Works''] \<and>
   fst (time_rate_scrap (broken_find_web (site_of [page_one, page_empty])) (page_one, [])) =
     [[(''Rate'', ''4''), (''Time'', ''May 1, 2024'')],
      [(''Rate'', ''Unknown''), (''Time'', ''Unknown'')]] \<and>
   main 3 (broken_find_web (site_of [page_one, page_empty])) =
     Some (Inl (TypeError ''zip argument #1 must support iteration''))"
  by code_simp

section \<open>The termination rule and pages without the main container\<close>

lemma page_step_data:
  fixes d :: scraped
  assumes "app_name_of app_url = Inr name"
    and "detail_scrap W (app_url @ str_nat p) = (Some d, lg)" and "reviews d = Some rs"
    and "rs \<noteq> [] \<or> content d \<noteq> [] \<or> time_rate d \<noteq> []"
  shows "page_step W app_url p st =
           Next (st\<lparr>combined_data := merge_loop name rs (content d) (time_rate d) (combined_data st),
                    log := log st @ lg @
                      [Info (''Extracted reviews and content from page '' @ str_nat p)]\<rparr>)"
  using assms by (auto simp: page_step_def Let_def)

lemma page_step_ends:
  fixes d :: scraped
  assumes "app_name_of app_url = Inr name"
    and "detail_scrap W (app_url @ str_nat p) = (None, lg) \<or>
         (\<exists>d. detail_scrap W (app_url @ str_nat p) = (Some d, lg) \<and>
              (reviews d = None \<or> reviews d = Some []) \<and> content d = [] \<and> time_rate d = [])"
  shows "page_step W app_url p st =
           Stop (st\<lparr>log := log st @ lg @
                   [Info (''No more data found at page '' @ str_nat p @
                          ''. Ending scraping for '' @ name @ ''.'')]\<rparr>)"
  using assms page_step_no_data page_step_all_empty by blast

text \<open>
  Where the identities of every page are a list, the loop does what the termination
  rule says: after \<open>k\<close> pages with data it ends at the first page without, given enough
  fuel, and the last log entry names that page.
\<close>

lemma scrape_pages_ends_at_first_empty_page:
  assumes name: "app_name_of app_url = Inr name"
    and data: "\<forall>i<k. \<exists>(d :: scraped) lg rs.
                 detail_scrap W (app_url @ str_nat (p + i)) = (Some d, lg) \<and> reviews d = Some rs \<and>
                 (rs \<noteq> [] \<or> content d \<noteq> [] \<or> time_rate d \<noteq> [])"
    and last: "detail_scrap W (app_url @ str_nat (p + k)) = (None, lg) \<or>
         (\<exists>d. detail_scrap W (app_url @ str_nat (p + k)) = (Some d, lg) \<and>
              (reviews d = None \<or> reviews d = Some []) \<and> content d = [] \<and> time_rate d = [])"
  shows "\<exists>st'. scrape_pages (Suc (k + fuel)) W app_url p st = Some (Inr st') \<and>
               last (log st') = Info (''No more data found at page '' @ str_nat (p + k) @
                                      ''. Ending scraping for '' @ name @ ''.'')"
  using data last
proof (induction k arbitrary: p st)
  case 0
  from "0.prems"(2) have "detail_scrap W (app_url @ str_nat p) = (None, lg) \<or>
         (\<exists>d. detail_scrap W (app_url @ str_nat p) = (Some d, lg) \<and>
              (reviews d = None \<or> reviews d = Some []) \<and> content d = [] \<and> time_rate d = [])"
    by simp
  with name have s: "page_step W app_url p st =
           Stop (st\<lparr>log := log st @ lg @
                   [Info (''No more data found at page '' @ str_nat p @
                          ''. Ending scraping for '' @ name @ ''.'')]\<rparr>)"
    by (rule page_step_ends)
  have "scrape_pages (Suc (0 + fuel)) W app_url p st =
          Some (Inr (st\<lparr>log := log st @ lg @
                   [Info (''No more data found at page '' @ str_nat p @
                          ''. Ending scraping for '' @ name @ ''.'')]\<rparr>))"
    by (simp only: scrape_pages.simps s step.case)
  then show ?case by simp
next
  case (Suc k)
  from Suc.prems(1) [rule_format, of 0] obtain d :: scraped and lg1 rs where
    d: "detail_scrap W (app_url @ str_nat p) = (Some d, lg1)" and r: "reviews d = Some rs"
    and ne: "rs \<noteq> [] \<or> content d \<noteq> [] \<or> time_rate d \<noteq> []"
    by auto
  let ?st1 = "st\<lparr>combined_data := merge_loop name rs (content d) (time_rate d) (combined_data st),
                    log := log st @ lg1 @
                      [Info (''Extracted reviews and content from page '' @ str_nat p)]\<rparr>"
  have step: "page_step W app_url p st = Next ?st1"
    using name d r ne by (rule page_step_data)
  have data': "\<forall>i<k. \<exists>(d :: scraped) lg rs.
                 detail_scrap W (app_url @ str_nat (p + 1 + i)) = (Some d, lg) \<and> reviews d = Some rs \<and>
                 (rs \<noteq> [] \<or> content d \<noteq> [] \<or> time_rate d \<noteq> [])"
  proof (intro allI impI)
    fix i assume "i < k"
    then have "Suc i < Suc k" by simp
    from Suc.prems(1) [rule_format, OF this]
    show "\<exists>(d :: scraped) lg rs.
                 detail_scrap W (app_url @ str_nat (p + 1 + i)) = (Some d, lg) \<and> reviews d = Some rs \<and>
                 (rs \<noteq> [] \<or> content d \<noteq> [] \<or> time_rate d \<noteq> [])"
      by simp
  qed
  have last': "detail_scrap W (app_url @ str_nat (p + 1 + k)) = (None, lg) \<or>
         (\<exists>d. detail_scrap W (app_url @ str_nat (p + 1 + k)) = (Some d, lg) \<and>
              (reviews d = None \<or> reviews d = Some []) \<and> content d = [] \<and> time_rate d = [])"
    using Suc.prems(2) by simp
  from Suc.IH [OF data' last', of ?st1] obtain st' where
    run: "scrape_pages (Suc (k + fuel)) W app_url (p + 1) ?st1 = Some (Inr st')" and
    l: "last (log st') = Info (''No more data found at page '' @ str_nat (p + 1 + k) @
                                      ''. Ending scraping for '' @ name @ ''.'')"
    by blast
  have e: "p + 1 + k = p + Suc k" by simp
  have "scrape_pages (Suc (Suc k + fuel)) W app_url p st =
          scrape_pages (Suc (k + fuel)) W app_url (p + 1) ?st1"
    by (simp only: add_Suc scrape_pages.simps step step.case)
  with run l e show ?case by (simp only:) blast
qed

text \<open>
  The example of claim C3 on lists: the first page has data and identities that are
  a list, the second page has nothing; the source ends after the second page with
  the records of the first page only.
\<close>

lemma scrape_pages_two_pages:
  fixes d1 :: scraped
  assumes name: "app_name_of app_url = Inr name"
    and one: "detail_scrap W (app_url @ str_nat p) = (Some d1, lg1)" "reviews d1 = Some rs"
      "rs \<noteq> [] \<or> content d1 \<noteq> [] \<or> time_rate d1 \<noteq> []"
    and two: "detail_scrap W (app_url @ str_nat (p + 1)) = (None, lg2) \<or>
         (\<exists>d. detail_scrap W (app_url @ str_nat (p + 1)) = (Some d, lg2) \<and>
              (reviews d = None \<or> reviews d = Some []) \<and> content d = [] \<and> time_rate d = [])"
  shows "\<exists>st'. scrape_pages (Suc (Suc fuel)) W app_url p st = Some (Inr st') \<and>
               combined_data st' = merge_loop name rs (content d1) (time_rate d1) (combined_data st)"
proof -
  let ?st1 = "st\<lparr>combined_data := merge_loop name rs (content d1) (time_rate d1) (combined_data st),
                    log := log st @ lg1 @
                      [Info (''Extracted reviews and content from page '' @ str_nat p)]\<rparr>"
  have s1: "page_step W app_url p st = Next ?st1"
    using name one by (rule page_step_data)
  have s2: "page_step W app_url (p + 1) ?st1 =
           Stop (?st1\<lparr>log := log ?st1 @ lg2 @
                   [Info (''No more data found at page '' @ str_nat (p + 1) @
                          ''. Ending scraping for '' @ name @ ''.'')]\<rparr>)"
    using name two by (rule page_step_ends)
  have "scrape_pages (Suc (Suc fuel)) W app_url p st =
          scrape_pages (Suc fuel) W app_url (p + 1) ?st1"
    by (simp only: scrape_pages.simps s1 step.case)
  also have "\<dots> = Some (Inr (?st1\<lparr>log := log ?st1 @ lg2 @
                   [Info (''No more data found at page '' @ str_nat (p + 1) @
                          ''. Ending scraping for '' @ name @ ''.'')]\<rparr>))"
    by (simp only: scrape_pages.simps s2 step.case)
  finally show ?thesis by simp
qed

text \<open>
  Claim C10 on lists: on a page whose identities are the empty list, with no
  content block and at least one rating, nothing is appended and the loop goes on
  with the next page.
\<close>

lemma page_step_rating_only_list:
  fixes d :: scraped
  assumes "app_name_of app_url = Inr name"
    and "detail_scrap W (app_url @ str_nat p) = (Some d, lg)" and "reviews d = Some []"
    and "content d = []" and "time_rate d \<noteq> []"
  shows "page_step W app_url p st =
           Next (st\<lparr>log := log st @ lg @
                      [Info (''Extracted reviews and content from page '' @ str_nat p)]\<rparr>) \<and>
         scrape_pages (Suc fuel) W app_url p st =
           scrape_pages fuel W app_url (p + 1)
             (st\<lparr>log := log st @ lg @
                      [Info (''Extracted reviews and content from page '' @ str_nat p)]\<rparr>)"
proof -
  have "page_step W app_url p st =
           Next (st\<lparr>combined_data := merge_loop name [] (content d) (time_rate d) (combined_data st),
                    log := log st @ lg @
                      [Info (''Extracted reviews and content from page '' @ str_nat p)]\<rparr>)"
    using assms(1,2,3) by (rule page_step_data) (simp add: assms(5))
  then have n: "page_step W app_url p st =
           Next (st\<lparr>log := log st @ lg @
                      [Info (''Extracted reviews and content from page '' @ str_nat p)]\<rparr>)"
    by simp
  have "scrape_pages (Suc fuel) W app_url p st =
           scrape_pages fuel W app_url (p + 1)
             (st\<lparr>log := log st @ lg @
                      [Info (''Extracted reviews and content from page '' @ str_nat p)]\<rparr>)"
    by (simp only: scrape_pages.simps n step.case)
  with n show ?thesis by (intro conjI)
qed

text \<open>
  Claim C3 at a page that has a content block but no main container. The page is not
  one on which all three groups are empty, so by the claim the source goes on to
  page 2 (which has reviews); the code raises TypeError from \<^verbatim>\<open>zip\<close> and \<open>main\<close> ends
  without any output.
\<close>

theorem C3_content_without_container_aborts:
  "fst (detail_scrap (tree_web (site_of [page_content_only, page_one])) (first_url @ ''1'')) =
     Some \<lparr>reviews = None, content = [''Nice''], time_rate = []\<rparr> \<and>
   scrape_pages 3 (tree_web (site_of [page_content_only, page_one])) first_url 1
     \<lparr>combined_data = [], log = [], written = []\<rparr> =
     Some (Inl (TypeError ''zip argument #1 must support iteration'')) \<and>
   main 3 (tree_web (site_of [page_content_only, page_one])) =
     Some (Inl (TypeError ''zip argument #1 must support iteration''))"
  by code_simp

text \<open>
  Claim C10 at a page with a rating but no main container and no content block, and
  at a page without anything on which the rating extraction raises: the identities
  are \<open>None\<close>, there is no content, the ratings are not empty. By the claim nothing is
  appended and the loop goes on with page 2; the code raises TypeError from \<^verbatim>\<open>zip\<close>.
\<close>

theorem C10_rating_without_container_aborts:
  "fst (detail_scrap (tree_web (site_of [page_rating_only, page_empty])) (first_url @ ''1'')) =
     Some \<lparr>reviews = None, content = [], time_rate = [[(''Rate'', ''5''), (''Time'', ''Unknown'')]]\<rparr> \<and>
   page_step (tree_web (site_of [page_rating_only, page_empty])) first_url 1
     \<lparr>combined_data = [], log = [], written = []\<rparr> =
     Raise (TypeError ''zip argument #1 must support iteration'') \<and>
   fst (detail_scrap (broken_find_all_web (site_of [page_blank])) (first_url @ ''1'')) =
     Some \<lparr>reviews = None, content = [],
           time_rate = [[(''Rate'', ''Unknown''), (''Time'', ''Unknown'')]]\<rparr> \<and>
   page_step (broken_find_all_web (site_of [page_blank])) first_url 1
     \<lparr>combined_data = [], log = [], written = []\<rparr> =
     Raise (TypeError ''zip argument #1 must support iteration'')"
  by code_simp

theorem C10_rating_without_container_aborts_witness:
  "\<forall>st'. page_step (tree_web (site_of [page_rating_only, page_empty])) first_url 1
           \<lparr>combined_data = [], log = [], written = []\<rparr> \<noteq> Next st'"
  using C10_rating_without_container_aborts by simp

end
